theory Spec2Isabelle
  imports Complex_Main "HOL-Library.Word"
begin

section \<open>Primitive values of the host language\<close>

text \<open>
  A string of the program is a sequence of 16-bit code units. \<open>js\<close> embeds an ASCII
  literal of the source text.
\<close>

type_synonym jsstring = "16 word list"

definition js :: "string \<Rightarrow> jsstring" where
  "js s = map (\<lambda>c. of_nat (of_char c)) s"

text \<open>
  \<open>String.prototype.trim\<close> removes white space and line terminators from both ends:
  TAB, LF, VT, FF, CR, SPACE, NBSP, U+1680, U+2000 to U+200A, U+2028, U+2029, U+202F,
  U+205F, U+3000 and U+FEFF.
\<close>

definition isWhiteSpace :: "16 word \<Rightarrow> bool" where
  "isWhiteSpace c =
     (c = 0x0009 \<or> c = 0x000A \<or> c = 0x000B \<or> c = 0x000C \<or> c = 0x000D \<or> c = 0x0020 \<or>
      c = 0x00A0 \<or> c = 0x1680 \<or> (0x2000 \<le> c \<and> c \<le> 0x200A) \<or> c = 0x2028 \<or>
      c = 0x2029 \<or> c = 0x202F \<or> c = 0x205F \<or> c = 0x3000 \<or> c = 0xFEFF)"

definition trim :: "jsstring \<Rightarrow> jsstring" where
  "trim s = rev (dropWhile isWhiteSpace (rev (dropWhile isWhiteSpace s)))"

text \<open>
  A \<open>Date\<close> holds a time value in milliseconds since the epoch, or is an invalid date
  (time value NaN). The relational operators compare the time values, and every
  comparison with NaN is false.
\<close>

datatype Date = TimeValue int | InvalidDate

fun Date_gt :: "Date \<Rightarrow> Date \<Rightarrow> bool" where
  "Date_gt (TimeValue a) (TimeValue b) = (b < a)"
| "Date_gt _ _ = False"


text \<open>
  A \<open>number\<close> is a finite value, an infinity or NaN. The program only compares a number
  with zero, which on finite values is the comparison of the reals.
\<close>

datatype number = Finite real | PosInfinity | NegInfinity | NaN

fun number_lt0 :: "number \<Rightarrow> bool" where
  "number_lt0 (Finite r) = (r < 0)"
| "number_lt0 NegInfinity = True"
| "number_lt0 PosInfinity = False"
| "number_lt0 NaN = False"

fun number_ge0 :: "number \<Rightarrow> bool" where
  "number_ge0 (Finite r) = (0 \<le> r)"
| "number_ge0 PosInfinity = True"
| "number_ge0 NegInfinity = False"
| "number_ge0 NaN = False"

section \<open>Errors\<close>

text \<open>
  Every \<open>throw new Error(message)\<close> of the program is one constructor, named after what
  its message says.
\<close>

datatype error =
    OrderIdRequired
  | AssignmentIdRequired
  | AccountIdRequired
  | DeliveryEventIdRequired
  | AddressRequired
  | StartMustPrecedeEnd
  | WeightMustBeNonNegative
  | InvalidOrderStatus jsstring
  | InvalidAssignmentStatus jsstring
  | InvalidEventType jsstring
  | OnlyPlacedCanBecomeReadyToShip
  | OnlyReadyToShipCanBeAssigned
  | OnlyAssignedCanBeDelivered
  | DeliveredCannotBeCancelled
  | OnlyPendingCanBeAccepted
  | OnlyPendingCanBeRejected
  | OnlyAcceptedCanBeCompleted
  | CompletedCannotBeCancelled
  | OrderNotFound
  | AssignmentNotFound
  | OrderCannotBeAssigned
  | ActiveAssignmentExists
  | UniqueViolation

text \<open>
  Sequencing of steps that may throw: the first error ends the computation.
\<close>

definition andThen :: "error + 'a \<Rightarrow> ('a \<Rightarrow> error + 'b) \<Rightarrow> error + 'b" where
  "andThen m f = (case m of Inl e \<Rightarrow> Inl e | Inr x \<Rightarrow> f x)"

section \<open>Value objects\<close>

subsection \<open>Identifiers\<close>

datatype OrderId = OrderId (OrderId_value: jsstring)

definition new_OrderId :: "jsstring \<Rightarrow> error + OrderId" where
  "new_OrderId v = (if v = [] then Inl OrderIdRequired else Inr (OrderId v))"

datatype AssignmentId = AssignmentId (AssignmentId_value: jsstring)

definition new_AssignmentId :: "jsstring \<Rightarrow> error + AssignmentId" where
  "new_AssignmentId v = (if v = [] then Inl AssignmentIdRequired else Inr (AssignmentId v))"

datatype AccountId = AccountId (AccountId_value: jsstring)

definition new_AccountId :: "jsstring \<Rightarrow> error + AccountId" where
  "new_AccountId v = (if v = [] then Inl AccountIdRequired else Inr (AccountId v))"

datatype DeliveryEventId = DeliveryEventId (DeliveryEventId_value: jsstring)

definition new_DeliveryEventId :: "jsstring \<Rightarrow> error + DeliveryEventId" where
  "new_DeliveryEventId v =
     (if v = [] then Inl DeliveryEventIdRequired else Inr (DeliveryEventId v))"

subsection \<open>Order status\<close>

datatype OrderStatusType = PLACED | READY_TO_SHIP | ASSIGNED | DELIVERED | CANCELLED

fun OrderStatusType_value :: "OrderStatusType \<Rightarrow> jsstring" where
  "OrderStatusType_value OrderStatusType.PLACED = js ''PLACED''"
| "OrderStatusType_value OrderStatusType.READY_TO_SHIP = js ''READY_TO_SHIP''"
| "OrderStatusType_value OrderStatusType.ASSIGNED = js ''ASSIGNED''"
| "OrderStatusType_value OrderStatusType.DELIVERED = js ''DELIVERED''"
| "OrderStatusType_value OrderStatusType.CANCELLED = js ''CANCELLED''"

definition OrderStatusType_values :: "OrderStatusType list" where
  "OrderStatusType_values =
     [OrderStatusType.PLACED, OrderStatusType.READY_TO_SHIP, OrderStatusType.ASSIGNED,
      OrderStatusType.DELIVERED, OrderStatusType.CANCELLED]"

text \<open>
  The constructor accepts a string exactly when \<open>Object.values(OrderStatusType)\<close>
  includes it, and keeps it as the enum member with that code.
\<close>

definition new_OrderStatus :: "jsstring \<Rightarrow> error + OrderStatusType" where
  "new_OrderStatus v =
     (case find (\<lambda>s. OrderStatusType_value s = v) OrderStatusType_values of
        None \<Rightarrow> Inl (InvalidOrderStatus v)
      | Some s \<Rightarrow> Inr s)"

definition OrderStatus_canBeAssigned :: "OrderStatusType \<Rightarrow> bool" where
  "OrderStatus_canBeAssigned s = (s = OrderStatusType.READY_TO_SHIP)"

definition OrderStatus_isDelivered :: "OrderStatusType \<Rightarrow> bool" where
  "OrderStatus_isDelivered s = (s = OrderStatusType.DELIVERED)"

subsection \<open>Assignment status\<close>

datatype AssignmentStatusType = PENDING | ACCEPTED | REJECTED | COMPLETED | CANCELLED

fun AssignmentStatusType_value :: "AssignmentStatusType \<Rightarrow> jsstring" where
  "AssignmentStatusType_value AssignmentStatusType.PENDING = js ''PENDING''"
| "AssignmentStatusType_value AssignmentStatusType.ACCEPTED = js ''ACCEPTED''"
| "AssignmentStatusType_value AssignmentStatusType.REJECTED = js ''REJECTED''"
| "AssignmentStatusType_value AssignmentStatusType.COMPLETED = js ''COMPLETED''"
| "AssignmentStatusType_value AssignmentStatusType.CANCELLED = js ''CANCELLED''"

definition AssignmentStatusType_values :: "AssignmentStatusType list" where
  "AssignmentStatusType_values =
     [AssignmentStatusType.PENDING, AssignmentStatusType.ACCEPTED,
      AssignmentStatusType.REJECTED, AssignmentStatusType.COMPLETED,
      AssignmentStatusType.CANCELLED]"

definition new_AssignmentStatus :: "jsstring \<Rightarrow> error + AssignmentStatusType" where
  "new_AssignmentStatus v =
     (case find (\<lambda>s. AssignmentStatusType_value s = v) AssignmentStatusType_values of
        None \<Rightarrow> Inl (InvalidAssignmentStatus v)
      | Some s \<Rightarrow> Inr s)"

definition AssignmentStatus_isActive :: "AssignmentStatusType \<Rightarrow> bool" where
  "AssignmentStatus_isActive s =
     (s = AssignmentStatusType.PENDING \<or> s = AssignmentStatusType.ACCEPTED)"

definition AssignmentStatus_isPending :: "AssignmentStatusType \<Rightarrow> bool" where
  "AssignmentStatus_isPending s = (s = AssignmentStatusType.PENDING)"

definition AssignmentStatus_isAccepted :: "AssignmentStatusType \<Rightarrow> bool" where
  "AssignmentStatus_isAccepted s = (s = AssignmentStatusType.ACCEPTED)"

definition AssignmentStatus_isCompleted :: "AssignmentStatusType \<Rightarrow> bool" where
  "AssignmentStatus_isCompleted s = (s = AssignmentStatusType.COMPLETED)"

subsection \<open>Address, time window, weight\<close>

datatype Address = Address (Address_value: jsstring)

definition new_Address :: "jsstring \<Rightarrow> error + Address" where
  "new_Address v =
     (if v = [] \<or> trim v = [] then Inl AddressRequired else Inr (Address (trim v)))"

record TimeWindow =
  startAt :: "Date option"
  endAt :: "Date option"

fun new_TimeWindow :: "Date option \<Rightarrow> Date option \<Rightarrow> error + TimeWindow" where
  "new_TimeWindow (Some s) (Some e) =
     (if Date_gt s e then Inl StartMustPrecedeEnd
      else Inr \<lparr>startAt = Some s, endAt = Some e\<rparr>)"
| "new_TimeWindow s e = Inr \<lparr>startAt = s, endAt = e\<rparr>"

datatype Weight = Weight (valueInKg: number)

definition new_Weight :: "number \<Rightarrow> error + Weight" where
  "new_Weight v = (if number_lt0 v then Inl WeightMustBeNonNegative else Inr (Weight v))"

section \<open>Entities\<close>

subsection \<open>Order\<close>

record Order =
  order_id :: OrderId
  order_shipperId :: AccountId
  order_status :: OrderStatusType
  order_pickupAddress :: Address
  order_dropoffAddress :: Address
  order_pickupTimeWindow :: TimeWindow
  order_dropoffTimeWindow :: TimeWindow
  order_totalWeight :: Weight
  order_notes :: "jsstring option"
  order_createdAt :: Date

text \<open>
  A transition method mutates the order or throws. The model returns the mutated order,
  or the error; an order whose method threw is left as it was. The new status is built
  by the constructor of the status value object, as in the source.
\<close>

definition markReadyToShip :: "Order \<Rightarrow> error + Order" where
  "markReadyToShip ord =
     (if order_status ord \<noteq> OrderStatusType.PLACED then Inl OnlyPlacedCanBecomeReadyToShip
      else andThen (new_OrderStatus (OrderStatusType_value OrderStatusType.READY_TO_SHIP))
             (\<lambda>s. Inr (ord\<lparr>order_status := s\<rparr>)))"

definition assign :: "Order \<Rightarrow> error + Order" where
  "assign ord =
     (if \<not> OrderStatus_canBeAssigned (order_status ord) then Inl OnlyReadyToShipCanBeAssigned
      else andThen (new_OrderStatus (OrderStatusType_value OrderStatusType.ASSIGNED))
             (\<lambda>s. Inr (ord\<lparr>order_status := s\<rparr>)))"

definition deliver :: "Order \<Rightarrow> error + Order" where
  "deliver ord =
     (if order_status ord \<noteq> OrderStatusType.ASSIGNED then Inl OnlyAssignedCanBeDelivered
      else andThen (new_OrderStatus (OrderStatusType_value OrderStatusType.DELIVERED))
             (\<lambda>s. Inr (ord\<lparr>order_status := s\<rparr>)))"

definition Order_cancel :: "Order \<Rightarrow> error + Order" where
  "Order_cancel ord =
     (if OrderStatus_isDelivered (order_status ord) then Inl DeliveredCannotBeCancelled
      else andThen (new_OrderStatus (OrderStatusType_value OrderStatusType.CANCELLED))
             (\<lambda>s. Inr (ord\<lparr>order_status := s\<rparr>)))"


subsection \<open>Assignment\<close>

record Assignment =
  assignment_id :: AssignmentId
  assignment_orderId :: OrderId
  assignment_courierId :: AccountId
  assignment_status :: AssignmentStatusType
  assignment_offeredAt :: Date
  assignment_respondedAt :: "Date option"

text \<open>
  \<open>accept\<close> and \<open>reject\<close> read the clock (\<open>new Date()\<close>); the model takes the time read
  as the argument \<open>now\<close>.
\<close>

definition accept :: "Date \<Rightarrow> Assignment \<Rightarrow> error + Assignment" where
  "accept now a =
     (if \<not> AssignmentStatus_isPending (assignment_status a) then Inl OnlyPendingCanBeAccepted
      else andThen
             (new_AssignmentStatus (AssignmentStatusType_value AssignmentStatusType.ACCEPTED))
             (\<lambda>s. Inr (a\<lparr>assignment_status := s, assignment_respondedAt := Some now\<rparr>)))"

definition reject :: "Date \<Rightarrow> Assignment \<Rightarrow> error + Assignment" where
  "reject now a =
     (if \<not> AssignmentStatus_isPending (assignment_status a) then Inl OnlyPendingCanBeRejected
      else andThen
             (new_AssignmentStatus (AssignmentStatusType_value AssignmentStatusType.REJECTED))
             (\<lambda>s. Inr (a\<lparr>assignment_status := s, assignment_respondedAt := Some now\<rparr>)))"

definition complete :: "Assignment \<Rightarrow> error + Assignment" where
  "complete a =
     (if \<not> AssignmentStatus_isAccepted (assignment_status a) then Inl OnlyAcceptedCanBeCompleted
      else andThen
             (new_AssignmentStatus (AssignmentStatusType_value AssignmentStatusType.COMPLETED))
             (\<lambda>s. Inr (a\<lparr>assignment_status := s\<rparr>)))"

definition Assignment_cancel :: "Assignment \<Rightarrow> error + Assignment" where
  "Assignment_cancel a =
     (if AssignmentStatus_isCompleted (assignment_status a) then Inl CompletedCannotBeCancelled
      else andThen
             (new_AssignmentStatus (AssignmentStatusType_value AssignmentStatusType.CANCELLED))
             (\<lambda>s. Inr (a\<lparr>assignment_status := s\<rparr>)))"

definition Assignment_isActive :: "Assignment \<Rightarrow> bool" where
  "Assignment_isActive a = AssignmentStatus_isActive (assignment_status a)"

subsection \<open>Delivery event\<close>

datatype EventTypeValue = ORDER_PLACED | READY_TO_SHIP | ASSIGNED | PICKED_UP | DELIVERED | CANCELLED

fun EventTypeValue_value :: "EventTypeValue \<Rightarrow> jsstring" where
  "EventTypeValue_value EventTypeValue.ORDER_PLACED = js ''ORDER_PLACED''"
| "EventTypeValue_value EventTypeValue.READY_TO_SHIP = js ''READY_TO_SHIP''"
| "EventTypeValue_value EventTypeValue.ASSIGNED = js ''ASSIGNED''"
| "EventTypeValue_value EventTypeValue.PICKED_UP = js ''PICKED_UP''"
| "EventTypeValue_value EventTypeValue.DELIVERED = js ''DELIVERED''"
| "EventTypeValue_value EventTypeValue.CANCELLED = js ''CANCELLED''"

definition EventTypeValue_values :: "EventTypeValue list" where
  "EventTypeValue_values =
     [EventTypeValue.ORDER_PLACED, EventTypeValue.READY_TO_SHIP, EventTypeValue.ASSIGNED,
      EventTypeValue.PICKED_UP, EventTypeValue.DELIVERED, EventTypeValue.CANCELLED]"

definition new_EventType :: "jsstring \<Rightarrow> error + EventTypeValue" where
  "new_EventType v =
     (case find (\<lambda>s. EventTypeValue_value s = v) EventTypeValue_values of
        None \<Rightarrow> Inl (InvalidEventType v)
      | Some s \<Rightarrow> Inr s)"

record DeliveryEvent =
  event_id :: DeliveryEventId
  event_orderId :: OrderId
  event_courierId :: "AccountId option"
  event_type :: EventTypeValue
  event_payloadJson :: "jsstring option"
  event_occurredAt :: Date

section \<open>JSON text of a payload\<close>

text \<open>
  \<open>JSON.stringify\<close> on an object whose properties are strings, without indentation: the
  members in the order of the properties, every name and value quoted. Quoting escapes
  the quotation mark, the backslash and the control characters below U+0020 (the short
  forms for BS, TAB, LF, FF, CR; \<open>\u\<close> and four lowercase hexadecimal digits for the
  others) and every surrogate code unit that is not part of a pair.
\<close>

definition hexDigit :: "nat \<Rightarrow> 16 word" where
  "hexDigit n = (if n < 10 then 0x30 + of_nat n else 0x61 + of_nat (n - 10))"

definition UnicodeEscape :: "16 word \<Rightarrow> jsstring" where
  "UnicodeEscape c =
     [0x5C, 0x75, hexDigit (unat c div 4096), hexDigit (unat c div 256 mod 16),
      hexDigit (unat c div 16 mod 16), hexDigit (unat c mod 16)]"

definition isLeadingSurrogate :: "16 word \<Rightarrow> bool" where
  "isLeadingSurrogate c = (0xD800 \<le> c \<and> c \<le> 0xDBFF)"

definition isTrailingSurrogate :: "16 word \<Rightarrow> bool" where
  "isTrailingSurrogate c = (0xDC00 \<le> c \<and> c \<le> 0xDFFF)"

fun escapeJSONString :: "jsstring \<Rightarrow> jsstring" where
  "escapeJSONString [] = []"
| "escapeJSONString (c # cs) =
     (if c = 0x08 then [0x5C, 0x62] @ escapeJSONString cs
      else if c = 0x09 then [0x5C, 0x74] @ escapeJSONString cs
      else if c = 0x0A then [0x5C, 0x6E] @ escapeJSONString cs
      else if c = 0x0C then [0x5C, 0x66] @ escapeJSONString cs
      else if c = 0x0D then [0x5C, 0x72] @ escapeJSONString cs
      else if c = 0x22 then [0x5C, 0x22] @ escapeJSONString cs
      else if c = 0x5C then [0x5C, 0x5C] @ escapeJSONString cs
      else if c < 0x20 then UnicodeEscape c @ escapeJSONString cs
      else if isLeadingSurrogate c then
        (case cs of
           [] \<Rightarrow> UnicodeEscape c
         | d # ds \<Rightarrow>
             if isTrailingSurrogate d then c # d # escapeJSONString ds
             else UnicodeEscape c @ escapeJSONString cs)
      else if isTrailingSurrogate c then UnicodeEscape c @ escapeJSONString cs
      else c # escapeJSONString cs)"

definition QuoteJSONString :: "jsstring \<Rightarrow> jsstring" where
  "QuoteJSONString s = [0x22] @ escapeJSONString s @ [0x22]"

fun joinMembers :: "jsstring list \<Rightarrow> jsstring" where
  "joinMembers [] = []"
| "joinMembers [m] = m"
| "joinMembers (m # ms) = m @ [0x2C] @ joinMembers ms"

definition JSON_stringify :: "(jsstring \<times> jsstring) list \<Rightarrow> jsstring" where
  "JSON_stringify props =
     [0x7B] @ joinMembers (map (\<lambda>(k, v). QuoteJSONString k @ [0x3A] @ QuoteJSONString v) props)
     @ [0x7D]"

section \<open>Persistence\<close>

subsection \<open>Rows and tables\<close>

text \<open>
  The rows of the three tables, with the columns of the ORM entities. A row holds plain
  strings; the repositories build the value objects from them.
\<close>

record OrderOrmEntity =
  orow_id :: jsstring
  orow_shipperId :: jsstring
  orow_status :: jsstring
  orow_pickupAddress :: jsstring
  orow_dropoffAddress :: jsstring
  orow_pickupStartAt :: "Date option"
  orow_pickupEndAt :: "Date option"
  orow_dropStartAt :: "Date option"
  orow_dropEndAt :: "Date option"
  orow_totalWeightKg :: number
  orow_notes :: "jsstring option"
  orow_createdAt :: Date

record AssignmentOrmEntity =
  arow_id :: jsstring
  arow_orderId :: jsstring
  arow_courierId :: jsstring
  arow_status :: jsstring
  arow_offeredAt :: Date
  arow_respondedAt :: "Date option"

record DeliveryEventOrmEntity =
  erow_id :: jsstring
  erow_orderId :: jsstring
  erow_courierId :: "jsstring option"
  erow_type :: jsstring
  erow_payloadJson :: "jsstring option"
  erow_occurredAt :: Date

record Database =
  order_table :: "OrderOrmEntity list"
  assignment_table :: "AssignmentOrmEntity list"
  delivery_event_table :: "DeliveryEventOrmEntity list"

text \<open>
  The two operations of the ORM's \<open>Repository\<close> that the program calls. \<open>findOne\<close> with a
  \<open>where\<close> object returns the first row on which every listed column equals the given
  value, or null; a table is the list of its rows in the order the database returns
  them. \<open>save\<close> writes a row by its primary key: it replaces the row with that key, or
  inserts the row when the table has none, and returns the row. A table keeps a value
  as it was written.
\<close>

definition findOne :: "('r \<Rightarrow> bool) \<Rightarrow> 'r list \<Rightarrow> 'r option" where
  "findOne matches rows = find matches rows"

fun saveByKey :: "('r \<Rightarrow> jsstring) \<Rightarrow> 'r \<Rightarrow> 'r list \<Rightarrow> 'r list" where
  "saveByKey key r [] = [r]"
| "saveByKey key r (x # xs) = (if key x = key r then r # xs else x # saveByKey key r xs)"

text \<open>
  The assignment table declares the column \<open>order_id\<close> unique
  (\<open>@Unique('uq_assignment_order', ['orderId'])\<close>): a write that would leave two rows with
  one order id is refused by the database, and the table is left as it was. The primary
  keys of the three tables and this constraint make the integrity of a database.
\<close>

definition violates_uq_assignment_order ::
    "AssignmentOrmEntity \<Rightarrow> AssignmentOrmEntity list \<Rightarrow> bool" where
  "violates_uq_assignment_order r rows =
     list_ex (\<lambda>x. arow_id x \<noteq> arow_id r \<and> arow_orderId x = arow_orderId r) rows"

definition Database_integrity :: "Database \<Rightarrow> bool" where
  "Database_integrity db =
     (distinct (map orow_id (order_table db)) \<and>
      distinct (map arow_id (assignment_table db)) \<and>
      distinct (map arow_orderId (assignment_table db)) \<and>
      distinct (map erow_id (delivery_event_table db)))"

subsection \<open>Order repository\<close>

definition OrderRepository_toDomain :: "OrderOrmEntity \<Rightarrow> error + Order" where
  "OrderRepository_toDomain entity =
     andThen (new_OrderId (orow_id entity)) (\<lambda>oid.
     andThen (new_AccountId (orow_shipperId entity)) (\<lambda>shipper.
     andThen (new_OrderStatus (orow_status entity)) (\<lambda>status.
     andThen (new_Address (orow_pickupAddress entity)) (\<lambda>pickup.
     andThen (new_Address (orow_dropoffAddress entity)) (\<lambda>dropoff.
     andThen (new_TimeWindow (orow_pickupStartAt entity) (orow_pickupEndAt entity)) (\<lambda>pickupWindow.
     andThen (new_TimeWindow (orow_dropStartAt entity) (orow_dropEndAt entity)) (\<lambda>dropoffWindow.
     andThen (new_Weight (orow_totalWeightKg entity)) (\<lambda>weight.
     Inr \<lparr>order_id = oid, order_shipperId = shipper, order_status = status,
          order_pickupAddress = pickup, order_dropoffAddress = dropoff,
          order_pickupTimeWindow = pickupWindow, order_dropoffTimeWindow = dropoffWindow,
          order_totalWeight = weight, order_notes = orow_notes entity,
          order_createdAt = orow_createdAt entity\<rparr>))))))))"

definition OrderRepository_toEntity :: "Order \<Rightarrow> OrderOrmEntity" where
  "OrderRepository_toEntity domain =
     \<lparr>orow_id = OrderId_value (order_id domain),
      orow_shipperId = AccountId_value (order_shipperId domain),
      orow_status = OrderStatusType_value (order_status domain),
      orow_pickupAddress = Address_value (order_pickupAddress domain),
      orow_dropoffAddress = Address_value (order_dropoffAddress domain),
      orow_pickupStartAt = startAt (order_pickupTimeWindow domain),
      orow_pickupEndAt = endAt (order_pickupTimeWindow domain),
      orow_dropStartAt = startAt (order_dropoffTimeWindow domain),
      orow_dropEndAt = endAt (order_dropoffTimeWindow domain),
      orow_totalWeightKg = valueInKg (order_totalWeight domain),
      orow_notes = order_notes domain,
      orow_createdAt = order_createdAt domain\<rparr>"

definition OrderRepository_findById :: "Database \<Rightarrow> OrderId \<Rightarrow> error + Order option" where
  "OrderRepository_findById db oid =
     (case findOne (\<lambda>r. orow_id r = OrderId_value oid) (order_table db) of
        None \<Rightarrow> Inr None
      | Some entity \<Rightarrow> andThen (OrderRepository_toDomain entity) (\<lambda>ord. Inr (Some ord)))"


definition OrderRepository_update :: "Database \<Rightarrow> Order \<Rightarrow> (error + Order) \<times> Database" where
  "OrderRepository_update db ord =
     (let entity = OrderRepository_toEntity ord;
          db' = db\<lparr>order_table := saveByKey orow_id entity (order_table db)\<rparr>
      in (OrderRepository_toDomain entity, db'))"

subsection \<open>Assignment repository\<close>

definition AssignmentRepository_toDomain :: "AssignmentOrmEntity \<Rightarrow> error + Assignment" where
  "AssignmentRepository_toDomain entity =
     andThen (new_AssignmentId (arow_id entity)) (\<lambda>aid.
     andThen (new_OrderId (arow_orderId entity)) (\<lambda>oid.
     andThen (new_AccountId (arow_courierId entity)) (\<lambda>courier.
     andThen (new_AssignmentStatus (arow_status entity)) (\<lambda>status.
     Inr \<lparr>assignment_id = aid, assignment_orderId = oid, assignment_courierId = courier,
          assignment_status = status, assignment_offeredAt = arow_offeredAt entity,
          assignment_respondedAt = arow_respondedAt entity\<rparr>))))"

definition AssignmentRepository_toEntity :: "Assignment \<Rightarrow> AssignmentOrmEntity" where
  "AssignmentRepository_toEntity domain =
     \<lparr>arow_id = AssignmentId_value (assignment_id domain),
      arow_orderId = OrderId_value (assignment_orderId domain),
      arow_courierId = AccountId_value (assignment_courierId domain),
      arow_status = AssignmentStatusType_value (assignment_status domain),
      arow_offeredAt = assignment_offeredAt domain,
      arow_respondedAt = assignment_respondedAt domain\<rparr>"

definition AssignmentRepository_findById ::
    "Database \<Rightarrow> AssignmentId \<Rightarrow> error + Assignment option" where
  "AssignmentRepository_findById db aid =
     (case findOne (\<lambda>r. arow_id r = AssignmentId_value aid) (assignment_table db) of
        None \<Rightarrow> Inr None
      | Some entity \<Rightarrow> andThen (AssignmentRepository_toDomain entity) (\<lambda>a. Inr (Some a)))"

definition AssignmentRepository_findByOrderId ::
    "Database \<Rightarrow> OrderId \<Rightarrow> error + Assignment option" where
  "AssignmentRepository_findByOrderId db oid =
     (case findOne (\<lambda>r. arow_orderId r = OrderId_value oid) (assignment_table db) of
        None \<Rightarrow> Inr None
      | Some entity \<Rightarrow> andThen (AssignmentRepository_toDomain entity) (\<lambda>a. Inr (Some a)))"

text \<open>
  The \<open>where\<close> object of \<open>findActiveByOrderId\<close> is
  \<open>{ orderId: orderId.value, status: 'PENDING' || 'ACCEPTED' }\<close>. The operator \<open>||\<close>
  returns its left operand when that is truthy, and a non-empty string is:
  \<open>logicalOr\<close> is this operator on strings.
\<close>

definition logicalOr :: "jsstring \<Rightarrow> jsstring \<Rightarrow> jsstring" where
  "logicalOr a b = (if a \<noteq> [] then a else b)"

definition AssignmentRepository_findActiveByOrderId ::
    "Database \<Rightarrow> OrderId \<Rightarrow> error + Assignment option" where
  "AssignmentRepository_findActiveByOrderId db oid =
     (case findOne (\<lambda>r. arow_orderId r = OrderId_value oid \<and>
                         arow_status r = logicalOr (js ''PENDING'') (js ''ACCEPTED''))
             (assignment_table db) of
        None \<Rightarrow> Inr None
      | Some entity \<Rightarrow> andThen (AssignmentRepository_toDomain entity) (\<lambda>a. Inr (Some a)))"


definition AssignmentRepository_update ::
    "Database \<Rightarrow> Assignment \<Rightarrow> (error + Assignment) \<times> Database" where
  "AssignmentRepository_update db a =
     (let entity = AssignmentRepository_toEntity a in
      if violates_uq_assignment_order entity (assignment_table db) then (Inl UniqueViolation, db)
      else (AssignmentRepository_toDomain entity,
            db\<lparr>assignment_table := saveByKey arow_id entity (assignment_table db)\<rparr>))"

subsection \<open>Delivery event repository\<close>

definition DeliveryEventRepository_toDomain ::
    "DeliveryEventOrmEntity \<Rightarrow> error + DeliveryEvent" where
  "DeliveryEventRepository_toDomain entity =
     andThen (new_DeliveryEventId (erow_id entity)) (\<lambda>eid.
     andThen (new_OrderId (erow_orderId entity)) (\<lambda>oid.
     andThen (case erow_courierId entity of
                None \<Rightarrow> Inr None
              | Some c \<Rightarrow> if c = [] then Inr None
                          else andThen (new_AccountId c) (\<lambda>courier. Inr (Some courier)))
       (\<lambda>courier.
     andThen (new_EventType (erow_type entity)) (\<lambda>type.
     Inr \<lparr>event_id = eid, event_orderId = oid, event_courierId = courier, event_type = type,
          event_payloadJson = erow_payloadJson entity,
          event_occurredAt = erow_occurredAt entity\<rparr>))))"

definition DeliveryEventRepository_toEntity :: "DeliveryEvent \<Rightarrow> DeliveryEventOrmEntity" where
  "DeliveryEventRepository_toEntity domain =
     \<lparr>erow_id = DeliveryEventId_value (event_id domain),
      erow_orderId = OrderId_value (event_orderId domain),
      erow_courierId = map_option AccountId_value (event_courierId domain),
      erow_type = EventTypeValue_value (event_type domain),
      erow_payloadJson = event_payloadJson domain,
      erow_occurredAt = event_occurredAt domain\<rparr>"

definition DeliveryEventRepository_save ::
    "Database \<Rightarrow> DeliveryEvent \<Rightarrow> (error + DeliveryEvent) \<times> Database" where
  "DeliveryEventRepository_save db event =
     (let entity = DeliveryEventRepository_toEntity event;
          db' = db\<lparr>delivery_event_table := saveByKey erow_id entity (delivery_event_table db)\<rparr>
      in (DeliveryEventRepository_toDomain entity, db'))"

section \<open>Use cases\<close>

text \<open>
  A use case runs against the database and returns its result, or the error it threw,
  with the database as the writes made before the return or the throw left it. What a
  use case reads from outside (a fresh \<open>uuidv4()\<close>, the clock of \<open>new Date()\<close>) is an
  argument, one for every read, in the order of the reads.
\<close>

subsection \<open>PlaceOrder\<close>



subsection \<open>OfferAssignment\<close>

record OfferAssignmentParams =
  orderId :: jsstring
  courierId :: jsstring


subsection \<open>AcceptAssignment\<close>

definition AcceptAssignmentUseCase_execute ::
    "Database \<Rightarrow> Date \<Rightarrow> jsstring \<Rightarrow> Date \<Rightarrow> jsstring \<Rightarrow> (error + Assignment) \<times> Database" where
  "AcceptAssignmentUseCase_execute db respondedAt eventUuid occurredAt assignmentId =
     (case new_AssignmentId assignmentId of
        Inl e \<Rightarrow> (Inl e, db)
      | Inr aid \<Rightarrow>
     (case AssignmentRepository_findById db aid of
        Inl e \<Rightarrow> (Inl e, db)
      | Inr None \<Rightarrow> (Inl AssignmentNotFound, db)
      | Inr (Some found) \<Rightarrow>
     (case accept respondedAt found of
        Inl e \<Rightarrow> (Inl e, db)
      | Inr assignment \<Rightarrow>
     (case AssignmentRepository_update db assignment of
        (Inl e, db1) \<Rightarrow> (Inl e, db1)
      | (Inr updatedAssignment, db1) \<Rightarrow>
     (case OrderRepository_findById db1 (assignment_orderId assignment) of
        Inl e \<Rightarrow> (Inl e, db1)
      | Inr None \<Rightarrow> (Inl OrderNotFound, db1)
      | Inr (Some foundOrder) \<Rightarrow>
     (case assign foundOrder of
        Inl e \<Rightarrow> (Inl e, db1)
      | Inr ord \<Rightarrow>
     (case OrderRepository_update db1 ord of
        (Inl e, db2) \<Rightarrow> (Inl e, db2)
      | (Inr updatedOrder, db2) \<Rightarrow>
     (case
        andThen (new_DeliveryEventId eventUuid) (\<lambda>eid.
        andThen (new_EventType (EventTypeValue_value EventTypeValue.ASSIGNED)) (\<lambda>type.
        Inr \<lparr>event_id = eid, event_orderId = assignment_orderId assignment,
             event_courierId = Some (assignment_courierId assignment), event_type = type,
             event_payloadJson = Some (JSON_stringify
               [(js ''assignmentId'', assignmentId),
                (js ''courierId'', AccountId_value (assignment_courierId assignment))]),
             event_occurredAt = occurredAt\<rparr>))
      of
        Inl e \<Rightarrow> (Inl e, db2)
      | Inr event \<Rightarrow>
     (case DeliveryEventRepository_save db2 event of
        (Inl e, db3) \<Rightarrow> (Inl e, db3)
      | (Inr savedEvent, db3) \<Rightarrow> (Inr updatedAssignment, db3))))))))))"

section \<open>Example values\<close>

text \<open>
  An order and an assignment as the unit tests of the entities build them, a database
  that holds the order and some assignments, and the parameters of the scenarios.
\<close>

definition example_order :: "OrderStatusType \<Rightarrow> Order" where
  "example_order s =
     \<lparr>order_id = OrderId (js ''order-123''),
      order_shipperId = AccountId (js ''shipper-123''),
      order_status = s,
      order_pickupAddress = Address (js ''Shibuya 1-1-1''),
      order_dropoffAddress = Address (js ''Shinjuku 2-2-2''),
      order_pickupTimeWindow = \<lparr>startAt = None, endAt = None\<rparr>,
      order_dropoffTimeWindow = \<lparr>startAt = None, endAt = None\<rparr>,
      order_totalWeight = Weight (Finite 5),
      order_notes = None,
      order_createdAt = TimeValue 0\<rparr>"

definition example_assignment :: "AssignmentStatusType \<Rightarrow> Date option \<Rightarrow> Assignment" where
  "example_assignment s r =
     \<lparr>assignment_id = AssignmentId (js ''assignment-1''),
      assignment_orderId = OrderId (js ''order-123''),
      assignment_courierId = AccountId (js ''courier-123''),
      assignment_status = s,
      assignment_offeredAt = TimeValue 1000,
      assignment_respondedAt = r\<rparr>"

definition example_db :: "OrderStatusType \<Rightarrow> Assignment list \<Rightarrow> Database" where
  "example_db os as =
     \<lparr>order_table = [OrderRepository_toEntity (example_order os)],
      assignment_table = map AssignmentRepository_toEntity as,
      delivery_event_table = []\<rparr>"



definition offer_params :: "jsstring \<Rightarrow> jsstring \<Rightarrow> OfferAssignmentParams" where
  "offer_params oid cid = \<lparr>orderId = oid, courierId = cid\<rparr>"

section \<open>Basic facts\<close>

lemma andThen_simps [simp]:
  "andThen (Inl e) f = Inl e"
  "andThen (Inr x) f = f x"
  by (simp_all add: andThen_def)

lemma andThen_eq_Inr: "andThen m f = Inr y \<longleftrightarrow> (\<exists>x. m = Inr x \<and> f x = Inr y)"
  by (cases m) simp_all

lemma new_OrderStatus_codes [simp]:
  "new_OrderStatus (js ''PLACED'') = Inr OrderStatusType.PLACED"
  "new_OrderStatus (js ''READY_TO_SHIP'') = Inr OrderStatusType.READY_TO_SHIP"
  "new_OrderStatus (js ''ASSIGNED'') = Inr OrderStatusType.ASSIGNED"
  "new_OrderStatus (js ''DELIVERED'') = Inr OrderStatusType.DELIVERED"
  "new_OrderStatus (js ''CANCELLED'') = Inr OrderStatusType.CANCELLED"
  by (simp_all add: new_OrderStatus_def OrderStatusType_values_def js_def)

lemma new_OrderStatus_value: "new_OrderStatus (OrderStatusType_value s) = Inr s"
  by (cases s) simp_all

lemma new_AssignmentStatus_codes [simp]:
  "new_AssignmentStatus (js ''PENDING'') = Inr AssignmentStatusType.PENDING"
  "new_AssignmentStatus (js ''ACCEPTED'') = Inr AssignmentStatusType.ACCEPTED"
  "new_AssignmentStatus (js ''REJECTED'') = Inr AssignmentStatusType.REJECTED"
  "new_AssignmentStatus (js ''COMPLETED'') = Inr AssignmentStatusType.COMPLETED"
  "new_AssignmentStatus (js ''CANCELLED'') = Inr AssignmentStatusType.CANCELLED"
  by (simp_all add: new_AssignmentStatus_def AssignmentStatusType_values_def js_def)

lemma new_AssignmentStatus_value:
  "new_AssignmentStatus (AssignmentStatusType_value s) = Inr s"
  by (cases s) simp_all

lemma new_EventType_codes [simp]:
  "new_EventType (js ''ORDER_PLACED'') = Inr EventTypeValue.ORDER_PLACED"
  "new_EventType (js ''READY_TO_SHIP'') = Inr EventTypeValue.READY_TO_SHIP"
  "new_EventType (js ''ASSIGNED'') = Inr EventTypeValue.ASSIGNED"
  "new_EventType (js ''PICKED_UP'') = Inr EventTypeValue.PICKED_UP"
  "new_EventType (js ''DELIVERED'') = Inr EventTypeValue.DELIVERED"
  "new_EventType (js ''CANCELLED'') = Inr EventTypeValue.CANCELLED"
  by (simp_all add: new_EventType_def EventTypeValue_values_def js_def)

lemma new_EventType_value: "new_EventType (EventTypeValue_value s) = Inr s"
  by (cases s) simp_all

lemma js_eq_Nil [simp]: "js s = [] \<longleftrightarrow> s = []"
  by (simp add: js_def)

section \<open>The order state machine\<close>

lemma example_order_status [simp]: "order_status (example_order s) = s"
  by (simp add: example_order_def)

lemma example_order_update [simp]:
  "(example_order s)\<lparr>order_status := t\<rparr> = example_order t"
  by (simp add: example_order_def)

text \<open>
  Claim C1. For every order: \<open>markReadyToShip\<close> succeeds exactly from PLACED and sets the
  status to READY_TO_SHIP; \<open>assign\<close> succeeds exactly from READY_TO_SHIP and sets ASSIGNED;
  \<open>deliver\<close> succeeds exactly from ASSIGNED and sets DELIVERED; \<open>cancel\<close> fails exactly
  from DELIVERED and otherwise sets CANCELLED, also on an order that is CANCELLED already,
  which it returns as it was. A successful transition changes the status field only.
\<close>

theorem order_transitions:
  "((\<exists>ord'. markReadyToShip ord = Inr ord') \<longleftrightarrow> order_status ord = OrderStatusType.PLACED) \<and>
   (\<forall>ord'. markReadyToShip ord = Inr ord' \<longrightarrow>
      ord' = ord\<lparr>order_status := OrderStatusType.READY_TO_SHIP\<rparr>) \<and>
   ((\<exists>ord'. assign ord = Inr ord') \<longleftrightarrow> order_status ord = OrderStatusType.READY_TO_SHIP) \<and>
   (\<forall>ord'. assign ord = Inr ord' \<longrightarrow> ord' = ord\<lparr>order_status := OrderStatusType.ASSIGNED\<rparr>) \<and>
   ((\<exists>ord'. deliver ord = Inr ord') \<longleftrightarrow> order_status ord = OrderStatusType.ASSIGNED) \<and>
   (\<forall>ord'. deliver ord = Inr ord' \<longrightarrow> ord' = ord\<lparr>order_status := OrderStatusType.DELIVERED\<rparr>) \<and>
   ((\<exists>e. Order_cancel ord = Inl e) \<longleftrightarrow> order_status ord = OrderStatusType.DELIVERED) \<and>
   (order_status ord \<noteq> OrderStatusType.DELIVERED \<longrightarrow>
      Order_cancel ord = Inr (ord\<lparr>order_status := OrderStatusType.CANCELLED\<rparr>)) \<and>
   (order_status ord = OrderStatusType.CANCELLED \<longrightarrow> Order_cancel ord = Inr ord)"
  by (auto simp: markReadyToShip_def assign_def deliver_def Order_cancel_def
      OrderStatus_canBeAssigned_def OrderStatus_isDelivered_def)

theorem order_transitions_witness:
  "markReadyToShip (example_order OrderStatusType.PLACED) =
     Inr (example_order OrderStatusType.READY_TO_SHIP) \<and>
   (\<nexists>ord'. markReadyToShip (example_order OrderStatusType.ASSIGNED) = Inr ord') \<and>
   assign (example_order OrderStatusType.READY_TO_SHIP) =
     Inr (example_order OrderStatusType.ASSIGNED) \<and>
   deliver (example_order OrderStatusType.ASSIGNED) =
     Inr (example_order OrderStatusType.DELIVERED) \<and>
   (\<exists>e. Order_cancel (example_order OrderStatusType.DELIVERED) = Inl e) \<and>
   Order_cancel (example_order OrderStatusType.PLACED) =
     Inr (example_order OrderStatusType.CANCELLED) \<and>
   Order_cancel (example_order OrderStatusType.CANCELLED) =
     Inr (example_order OrderStatusType.CANCELLED)"
proof -
  have 1: "markReadyToShip (example_order OrderStatusType.PLACED) =
      Inr (example_order OrderStatusType.READY_TO_SHIP)"
    using order_transitions [of "example_order OrderStatusType.PLACED"] by auto
  have 2: "\<nexists>ord'. markReadyToShip (example_order OrderStatusType.ASSIGNED) = Inr ord'"
    using order_transitions [of "example_order OrderStatusType.ASSIGNED"] by simp
  have 3: "assign (example_order OrderStatusType.READY_TO_SHIP) =
      Inr (example_order OrderStatusType.ASSIGNED)"
    using order_transitions [of "example_order OrderStatusType.READY_TO_SHIP"] by auto
  have 4: "deliver (example_order OrderStatusType.ASSIGNED) =
      Inr (example_order OrderStatusType.DELIVERED)"
    using order_transitions [of "example_order OrderStatusType.ASSIGNED"] by auto
  have 5: "\<exists>e. Order_cancel (example_order OrderStatusType.DELIVERED) = Inl e"
    using order_transitions [of "example_order OrderStatusType.DELIVERED"] by simp
  have 6: "Order_cancel (example_order OrderStatusType.PLACED) =
      Inr (example_order OrderStatusType.CANCELLED)"
    using order_transitions [of "example_order OrderStatusType.PLACED"] by simp
  have 7: "Order_cancel (example_order OrderStatusType.CANCELLED) =
      Inr (example_order OrderStatusType.CANCELLED)"
    using order_transitions [of "example_order OrderStatusType.CANCELLED"] by simp
  from 1 2 3 4 5 6 7 show ?thesis by blast
qed

section \<open>The assignment state machine\<close>

lemma example_assignment_fields [simp]:
  "assignment_status (example_assignment s r) = s"
  "assignment_respondedAt (example_assignment s r) = r"
  by (simp_all add: example_assignment_def)

text \<open>
  Claim C2. For every assignment: \<open>accept\<close> and \<open>reject\<close> succeed exactly from PENDING, and
  then set the status to ACCEPTED (REJECTED) and \<open>respondedAt\<close> to the current time;
  \<open>complete\<close> succeeds exactly from ACCEPTED and sets COMPLETED; \<open>cancel\<close> fails exactly from
  COMPLETED and otherwise sets CANCELLED.
\<close>

theorem assignment_transitions:
  "((\<exists>a'. accept now a = Inr a') \<longleftrightarrow> assignment_status a = AssignmentStatusType.PENDING) \<and>
   (\<forall>a'. accept now a = Inr a' \<longrightarrow>
      assignment_status a' = AssignmentStatusType.ACCEPTED \<and>
      assignment_respondedAt a' = Some now) \<and>
   ((\<exists>a'. reject now a = Inr a') \<longleftrightarrow> assignment_status a = AssignmentStatusType.PENDING) \<and>
   (\<forall>a'. reject now a = Inr a' \<longrightarrow>
      assignment_status a' = AssignmentStatusType.REJECTED \<and>
      assignment_respondedAt a' = Some now) \<and>
   ((\<exists>a'. complete a = Inr a') \<longleftrightarrow> assignment_status a = AssignmentStatusType.ACCEPTED) \<and>
   (\<forall>a'. complete a = Inr a' \<longrightarrow> assignment_status a' = AssignmentStatusType.COMPLETED) \<and>
   ((\<exists>e. Assignment_cancel a = Inl e) \<longleftrightarrow>
      assignment_status a = AssignmentStatusType.COMPLETED) \<and>
   (assignment_status a \<noteq> AssignmentStatusType.COMPLETED \<longrightarrow>
      (\<exists>a'. Assignment_cancel a = Inr a' \<and>
         assignment_status a' = AssignmentStatusType.CANCELLED))"
  by (auto simp: accept_def reject_def complete_def Assignment_cancel_def
      AssignmentStatus_isPending_def AssignmentStatus_isAccepted_def
      AssignmentStatus_isCompleted_def)

theorem assignment_transitions_witness:
  "(\<exists>a'. accept (TimeValue 2000) (example_assignment AssignmentStatusType.PENDING None) = Inr a' \<and>
      assignment_status a' = AssignmentStatusType.ACCEPTED \<and>
      assignment_respondedAt a' = Some (TimeValue 2000)) \<and>
   (\<nexists>a'. accept (TimeValue 2000)
      (example_assignment AssignmentStatusType.ACCEPTED (Some (TimeValue 1500))) = Inr a') \<and>
   (\<exists>a'. reject (TimeValue 2000) (example_assignment AssignmentStatusType.PENDING None) = Inr a' \<and>
      assignment_status a' = AssignmentStatusType.REJECTED \<and>
      assignment_respondedAt a' = Some (TimeValue 2000)) \<and>
   (\<exists>a'. complete (example_assignment AssignmentStatusType.ACCEPTED (Some (TimeValue 1500)))
      = Inr a' \<and> assignment_status a' = AssignmentStatusType.COMPLETED) \<and>
   (\<exists>e. Assignment_cancel
      (example_assignment AssignmentStatusType.COMPLETED (Some (TimeValue 1500))) = Inl e) \<and>
   (\<exists>a'. Assignment_cancel (example_assignment AssignmentStatusType.PENDING None) = Inr a' \<and>
      assignment_status a' = AssignmentStatusType.CANCELLED)"
proof -
  let ?p = "example_assignment AssignmentStatusType.PENDING None"
  let ?a = "example_assignment AssignmentStatusType.ACCEPTED (Some (TimeValue 1500))"
  let ?c = "example_assignment AssignmentStatusType.COMPLETED (Some (TimeValue 1500))"
  have 1: "\<exists>a'. accept (TimeValue 2000) ?p = Inr a' \<and>
      assignment_status a' = AssignmentStatusType.ACCEPTED \<and>
      assignment_respondedAt a' = Some (TimeValue 2000)"
    using assignment_transitions [of "TimeValue 2000" ?p] by auto
  have 2: "\<nexists>a'. accept (TimeValue 2000) ?a = Inr a'"
    using assignment_transitions [of "TimeValue 2000" ?a] by simp
  have 3: "\<exists>a'. reject (TimeValue 2000) ?p = Inr a' \<and>
      assignment_status a' = AssignmentStatusType.REJECTED \<and>
      assignment_respondedAt a' = Some (TimeValue 2000)"
    using assignment_transitions [of "TimeValue 2000" ?p] by auto
  have 4: "\<exists>a'. complete ?a = Inr a' \<and> assignment_status a' = AssignmentStatusType.COMPLETED"
    using assignment_transitions [of "TimeValue 2000" ?a] by auto
  have 5: "\<exists>e. Assignment_cancel ?c = Inl e"
    using assignment_transitions [of "TimeValue 2000" ?c] by simp
  have 6: "\<exists>a'. Assignment_cancel ?p = Inr a' \<and>
      assignment_status a' = AssignmentStatusType.CANCELLED"
    using assignment_transitions [of "TimeValue 2000" ?p] by simp
  from 1 2 3 4 5 6 show ?thesis by blast
qed

text \<open>
  Claim C10. \<open>complete\<close> and \<open>cancel\<close> change the status field only: the identifier, the
  order, the courier, \<open>offeredAt\<close> and \<open>respondedAt\<close> of the assignment stay as they were.
  So an assignment that is PENDING with no response time, as a new one is, is cancelled
  with \<open>respondedAt\<close> still null.
\<close>

theorem assignment_complete_cancel_frame:
  "(\<forall>a'. complete a = Inr a' \<longrightarrow>
      assignment_id a' = assignment_id a \<and> assignment_orderId a' = assignment_orderId a \<and>
      assignment_courierId a' = assignment_courierId a \<and>
      assignment_offeredAt a' = assignment_offeredAt a \<and>
      assignment_respondedAt a' = assignment_respondedAt a) \<and>
   (\<forall>a'. Assignment_cancel a = Inr a' \<longrightarrow>
      assignment_id a' = assignment_id a \<and> assignment_orderId a' = assignment_orderId a \<and>
      assignment_courierId a' = assignment_courierId a \<and>
      assignment_offeredAt a' = assignment_offeredAt a \<and>
      assignment_respondedAt a' = assignment_respondedAt a) \<and>
   (assignment_status a = AssignmentStatusType.PENDING \<and> assignment_respondedAt a = None \<longrightarrow>
      (\<exists>a'. Assignment_cancel a = Inr a' \<and> assignment_respondedAt a' = None))"
  by (auto simp: complete_def Assignment_cancel_def AssignmentStatus_isCompleted_def
      split: if_splits)

theorem assignment_complete_cancel_frame_witness:
  "(\<exists>a'. complete (example_assignment AssignmentStatusType.ACCEPTED (Some (TimeValue 1500))) =
      Inr a' \<and>
      assignment_id a' = AssignmentId (js ''assignment-1'') \<and>
      assignment_orderId a' = OrderId (js ''order-123'') \<and>
      assignment_courierId a' = AccountId (js ''courier-123'') \<and>
      assignment_offeredAt a' = TimeValue 1000 \<and>
      assignment_respondedAt a' = Some (TimeValue 1500)) \<and>
   (\<exists>a'. Assignment_cancel
      (example_assignment AssignmentStatusType.ACCEPTED (Some (TimeValue 1500))) = Inr a' \<and>
      assignment_id a' = AssignmentId (js ''assignment-1'') \<and>
      assignment_orderId a' = OrderId (js ''order-123'') \<and>
      assignment_courierId a' = AccountId (js ''courier-123'') \<and>
      assignment_offeredAt a' = TimeValue 1000 \<and>
      assignment_respondedAt a' = Some (TimeValue 1500)) \<and>
   (\<exists>a'. Assignment_cancel (example_assignment AssignmentStatusType.PENDING None) = Inr a' \<and>
      assignment_respondedAt a' = None)"
proof -
  let ?p = "example_assignment AssignmentStatusType.PENDING None"
  let ?a = "example_assignment AssignmentStatusType.ACCEPTED (Some (TimeValue 1500))"
  have fields: "assignment_id ?a = AssignmentId (js ''assignment-1'')"
    "assignment_orderId ?a = OrderId (js ''order-123'')"
    "assignment_courierId ?a = AccountId (js ''courier-123'')"
    "assignment_offeredAt ?a = TimeValue 1000"
    by (simp_all add: example_assignment_def)
  obtain c where c: "complete ?a = Inr c"
    by (simp add: complete_def AssignmentStatus_isAccepted_def)
  obtain d where d: "Assignment_cancel ?a = Inr d"
    by (simp add: Assignment_cancel_def AssignmentStatus_isCompleted_def)
  have 1: "assignment_id c = AssignmentId (js ''assignment-1'') \<and>
      assignment_orderId c = OrderId (js ''order-123'') \<and>
      assignment_courierId c = AccountId (js ''courier-123'') \<and>
      assignment_offeredAt c = TimeValue 1000 \<and>
      assignment_respondedAt c = Some (TimeValue 1500)"
    using assignment_complete_cancel_frame [of ?a] c fields by simp
  have 2: "assignment_id d = AssignmentId (js ''assignment-1'') \<and>
      assignment_orderId d = OrderId (js ''order-123'') \<and>
      assignment_courierId d = AccountId (js ''courier-123'') \<and>
      assignment_offeredAt d = TimeValue 1000 \<and>
      assignment_respondedAt d = Some (TimeValue 1500)"
    using assignment_complete_cancel_frame [of ?a] d fields by simp
  have 3: "\<exists>a'. Assignment_cancel ?p = Inr a' \<and> assignment_respondedAt a' = None"
    using assignment_complete_cancel_frame [of ?p] by simp
  from c d 1 2 3 show ?thesis by blast
qed

section \<open>Construction of the value objects\<close>

text \<open>What \<open>trim\<close> returns: the string without the white space at its two ends.\<close>

lemma trim_eq_Nil_iff: "trim v = [] \<longleftrightarrow> (\<forall>c\<in>set v. isWhiteSpace c)"
proof -
  have "trim v = [] \<longleftrightarrow> (\<forall>c\<in>set (dropWhile isWhiteSpace v). isWhiteSpace c)"
    by (simp add: trim_def dropWhile_eq_Nil_conv)
  also have "\<dots> \<longleftrightarrow> dropWhile isWhiteSpace v = []"
    by (metis dropWhile_eq_Nil_conv dropWhile_idem)
  also have "\<dots> \<longleftrightarrow> (\<forall>c\<in>set v. isWhiteSpace c)"
    by (simp add: dropWhile_eq_Nil_conv)
  finally show ?thesis .
qed

lemma trim_idem: "trim (trim v) = trim v"
proof -
  let ?u = "dropWhile isWhiteSpace (rev (dropWhile isWhiteSpace v))"
  have "dropWhile isWhiteSpace (rev ?u) = rev ?u"
    by (metis (no_types, lifting) dropWhile_eq_self_iff dropWhile_last
        hd_dropWhile hd_rev last_in_set last_rev rev.simps(1))
  then show ?thesis
    by (simp add: trim_def)
qed

lemma trim_decomposition:
  "\<exists>p q. v = p @ trim v @ q \<and> (\<forall>c\<in>set p. isWhiteSpace c) \<and> (\<forall>c\<in>set q. isWhiteSpace c)"
proof -
  let ?p = "takeWhile isWhiteSpace v"
  let ?t = "dropWhile isWhiteSpace v"
  let ?q = "rev (takeWhile isWhiteSpace (rev ?t))"
  have "rev ?t = takeWhile isWhiteSpace (rev ?t) @ dropWhile isWhiteSpace (rev ?t)"
    by simp
  then have "?t = trim v @ ?q"
    by (metis rev_append rev_rev_ident trim_def)
  then have "v = ?p @ trim v @ ?q"
    by (metis takeWhile_dropWhile_id)
  moreover have "\<forall>c\<in>set ?p. isWhiteSpace c"
    by (auto dest: set_takeWhileD)
  moreover have "\<forall>c\<in>set ?q. isWhiteSpace c"
    by (auto dest: set_takeWhileD)
  ultimately show ?thesis by blast
qed

lemma trim_ends:
  assumes "trim v \<noteq> []"
  shows "\<not> isWhiteSpace (hd (trim v))" and "\<not> isWhiteSpace (last (trim v))"
proof -
  let ?t = "dropWhile isWhiteSpace v"
  let ?u = "dropWhile isWhiteSpace (rev ?t)"
  from assms have u: "?u \<noteq> []" by (simp add: trim_def)
  then have "\<not> isWhiteSpace (hd ?u)" by (rule hd_dropWhile)
  then show "\<not> isWhiteSpace (last (trim v))"
    using u by (simp add: trim_def last_rev)
  have t: "?t \<noteq> []"
  proof
    assume "?t = []"
    then have "?u = []" by (simp only: rev.simps dropWhile.simps)
    with u show False by simp
  qed
  then have "\<not> isWhiteSpace (hd ?t)" by (rule hd_dropWhile)
  moreover have "hd (trim v) = hd ?t"
  proof -
    have "hd (trim v) = last ?u"
      by (simp add: trim_def hd_rev)
    also have "last ?u = last (rev ?t)"
    proof -
      from u obtain x where "x \<in> set (rev ?t)" and "\<not> isWhiteSpace x"
        unfolding dropWhile_eq_Nil_conv by blast
      then show ?thesis by (rule dropWhile_last)
    qed
    also have "last (rev ?t) = hd ?t"
      by (simp only: last_rev)
    finally show ?thesis .
  qed
  ultimately show "\<not> isWhiteSpace (hd (trim v))" by simp
qed

lemma new_OrderStatus_invalid:
  "v \<notin> {js ''PLACED'', js ''READY_TO_SHIP'', js ''ASSIGNED'', js ''DELIVERED'', js ''CANCELLED''}
   \<Longrightarrow> new_OrderStatus v = Inl (InvalidOrderStatus v)"
  by (auto simp add: new_OrderStatus_def OrderStatusType_values_def)

lemma new_AssignmentStatus_invalid:
  "v \<notin> {js ''PENDING'', js ''ACCEPTED'', js ''REJECTED'', js ''COMPLETED'', js ''CANCELLED''}
   \<Longrightarrow> new_AssignmentStatus v = Inl (InvalidAssignmentStatus v)"
  by (auto simp add: new_AssignmentStatus_def AssignmentStatusType_values_def)

lemma new_Address_nonblank:
  assumes "\<exists>c\<in>set v. \<not> isWhiteSpace c"
  shows "new_Address v = Inr (Address (trim v))"
proof -
  from assms have "trim v \<noteq> []" by (simp add: trim_eq_Nil_iff)
  moreover from assms have "v \<noteq> []" by auto
  ultimately show ?thesis by (simp add: new_Address_def)
qed

lemma new_Address_blank:
  assumes "\<forall>c\<in>set v. isWhiteSpace c"
  shows "new_Address v = Inl AddressRequired"
  using assms by (simp add: new_Address_def trim_eq_Nil_iff)

lemma new_Address_trim: "trim v \<noteq> [] \<Longrightarrow> new_Address (trim v) = Inr (Address (trim v))"
  by (simp add: new_Address_def trim_idem)

text \<open>
  Claim C8. An address built from a string with a character that is not white space
  holds the trimmed string, which reads back unchanged and builds the same address
  again; an empty string or one of white space only is refused. A weight below zero is
  refused, and a weight of zero or more is stored as it is. A string that is not one of
  the five codes of the order status (of the assignment status) is refused by the
  constructor of that status.
\<close>

theorem value_object_construction:
  "((\<exists>c\<in>set v. \<not> isWhiteSpace c) \<longrightarrow>
      (\<exists>a. new_Address v = Inr a \<and> Address_value a = trim v \<and>
           new_Address (Address_value a) = Inr a)) \<and>
   ((\<forall>c\<in>set v. isWhiteSpace c) \<longrightarrow> new_Address v = Inl AddressRequired) \<and>
   (number_lt0 x \<longrightarrow> new_Weight x = Inl WeightMustBeNonNegative) \<and>
   (number_ge0 x \<longrightarrow> (\<exists>w. new_Weight x = Inr w \<and> valueInKg w = x)) \<and>
   (s \<notin> {js ''PLACED'', js ''READY_TO_SHIP'', js ''ASSIGNED'', js ''DELIVERED'',
          js ''CANCELLED''} \<longrightarrow> new_OrderStatus s = Inl (InvalidOrderStatus s)) \<and>
   (s \<notin> {js ''PENDING'', js ''ACCEPTED'', js ''REJECTED'', js ''COMPLETED'',
          js ''CANCELLED''} \<longrightarrow> new_AssignmentStatus s = Inl (InvalidAssignmentStatus s))"
proof -
  have address_ok: "(\<exists>c\<in>set v. \<not> isWhiteSpace c) \<longrightarrow>
      (\<exists>a. new_Address v = Inr a \<and> Address_value a = trim v \<and>
           new_Address (Address_value a) = Inr a)"
  proof
    assume nb: "\<exists>c\<in>set v. \<not> isWhiteSpace c"
    then have "trim v \<noteq> []" by (simp add: trim_eq_Nil_iff)
    with nb show "\<exists>a. new_Address v = Inr a \<and> Address_value a = trim v \<and>
           new_Address (Address_value a) = Inr a"
      by (simp add: new_Address_nonblank new_Address_trim)
  qed
  have weight_neg: "number_lt0 x \<longrightarrow> new_Weight x = Inl WeightMustBeNonNegative"
    by (simp add: new_Weight_def)
  have weight_ok: "number_ge0 x \<longrightarrow> (\<exists>w. new_Weight x = Inr w \<and> valueInKg w = x)"
    by (cases x) (simp_all add: new_Weight_def)
  show ?thesis
    using address_ok weight_neg weight_ok new_Address_blank [of v]
      new_OrderStatus_invalid [of s] new_AssignmentStatus_invalid [of s]
    by blast
qed

theorem value_object_construction_witness:
  "new_Address (js ''  Shibuya 1-1-1  '') = Inr (Address (js ''Shibuya 1-1-1'')) \<and>
   new_Address (js ''   '') = Inl AddressRequired \<and>
   new_Address [] = Inl AddressRequired \<and>
   new_Weight (Finite (- 1)) = Inl WeightMustBeNonNegative \<and>
   (\<exists>w. new_Weight (Finite 5) = Inr w \<and> valueInKg w = Finite 5) \<and>
   new_OrderStatus (js ''INVALID'') = Inl (InvalidOrderStatus (js ''INVALID'')) \<and>
   new_AssignmentStatus (js ''PLACED'') = Inl (InvalidAssignmentStatus (js ''PLACED''))"
proof -
  have ws: "\<exists>c\<in>set (js ''  Shibuya 1-1-1  ''). \<not> isWhiteSpace c"
    by (simp add: js_def isWhiteSpace_def)
  have tr: "trim (js ''  Shibuya 1-1-1  '') = js ''Shibuya 1-1-1''"
    by (simp add: js_def trim_def isWhiteSpace_def)
  have 1: "new_Address (js ''  Shibuya 1-1-1  '') = Inr (Address (js ''Shibuya 1-1-1''))"
    using value_object_construction [of "js ''  Shibuya 1-1-1  ''"] ws tr
    by (metis Address.collapse)
  have bl: "\<forall>c\<in>set (js ''   ''). isWhiteSpace c"
    by (simp add: js_def isWhiteSpace_def)
  have 2: "new_Address (js ''   '') = Inl AddressRequired"
    using value_object_construction [of "js ''   ''"] bl by blast
  have 3: "new_Address [] = Inl AddressRequired"
    using value_object_construction [of "[]"] by simp
  have 4: "new_Weight (Finite (- 1)) = Inl WeightMustBeNonNegative"
    using value_object_construction [of _ "Finite (- 1)"] by simp
  have 5: "\<exists>w. new_Weight (Finite 5) = Inr w \<and> valueInKg w = Finite 5"
    using value_object_construction [of _ "Finite 5"] by simp
  have 6: "new_OrderStatus (js ''INVALID'') = Inl (InvalidOrderStatus (js ''INVALID''))"
    using value_object_construction [of _ _ "js ''INVALID''"] by (simp add: js_def)
  have 7: "new_AssignmentStatus (js ''PLACED'') = Inl (InvalidAssignmentStatus (js ''PLACED''))"
    using value_object_construction [of _ _ "js ''PLACED''"] by (simp add: js_def)
  from 1 2 3 4 5 6 7 show ?thesis by blast
qed




section \<open>Facts about rows, tables and repositories\<close>

subsection \<open>The constructors, inverted\<close>

lemma new_OrderId_eq_Inr: "new_OrderId v = Inr i \<longleftrightarrow> v \<noteq> [] \<and> i = OrderId v"
  by (auto simp: new_OrderId_def)

lemma new_AssignmentId_eq_Inr: "new_AssignmentId v = Inr i \<longleftrightarrow> v \<noteq> [] \<and> i = AssignmentId v"
  by (auto simp: new_AssignmentId_def)

lemma new_AccountId_eq_Inr: "new_AccountId v = Inr i \<longleftrightarrow> v \<noteq> [] \<and> i = AccountId v"
  by (auto simp: new_AccountId_def)

lemma new_DeliveryEventId_eq_Inr:
  "new_DeliveryEventId v = Inr i \<longleftrightarrow> v \<noteq> [] \<and> i = DeliveryEventId v"
  by (auto simp: new_DeliveryEventId_def)

lemma new_Address_eq_Inr: "new_Address v = Inr a \<longleftrightarrow> trim v \<noteq> [] \<and> a = Address (trim v)"
proof -
  have "trim [] = []" by (simp add: trim_def)
  then show ?thesis by (auto simp: new_Address_def)
qed

lemma new_Weight_eq_Inr: "new_Weight v = Inr w \<longleftrightarrow> \<not> number_lt0 v \<and> w = Weight v"
  by (auto simp: new_Weight_def)

lemma new_TimeWindow_again:
  "new_TimeWindow s e = Inr w \<Longrightarrow> new_TimeWindow (startAt w) (endAt w) = Inr w"
  by (cases s; cases e) (auto split: if_splits)


subsection \<open>A row read and written back\<close>

lemma AssignmentRepository_toDomain_eq_Inr:
  "AssignmentRepository_toDomain r = Inr a \<longleftrightarrow>
     arow_id r \<noteq> [] \<and> arow_orderId r \<noteq> [] \<and> arow_courierId r \<noteq> [] \<and>
     (\<exists>s. new_AssignmentStatus (arow_status r) = Inr s \<and>
        a = \<lparr>assignment_id = AssignmentId (arow_id r),
             assignment_orderId = OrderId (arow_orderId r),
             assignment_courierId = AccountId (arow_courierId r),
             assignment_status = s,
             assignment_offeredAt = arow_offeredAt r,
             assignment_respondedAt = arow_respondedAt r\<rparr>)"
  by (auto simp: AssignmentRepository_toDomain_def andThen_eq_Inr new_AssignmentId_eq_Inr
      new_OrderId_eq_Inr new_AccountId_eq_Inr)

lemma AssignmentRepository_roundtrip:
  assumes "AssignmentRepository_toDomain r = Inr a"
  shows "AssignmentRepository_toDomain
      (AssignmentRepository_toEntity (a\<lparr>assignment_status := s, assignment_respondedAt := t\<rparr>))
    = Inr (a\<lparr>assignment_status := s, assignment_respondedAt := t\<rparr>)"
  using assms
  by (auto simp: AssignmentRepository_toDomain_eq_Inr AssignmentRepository_toEntity_def
      new_AssignmentStatus_value)

lemma AssignmentRepository_toEntity_keys:
  assumes "AssignmentRepository_toDomain r = Inr a"
  shows "arow_id (AssignmentRepository_toEntity (a\<lparr>assignment_status := s, assignment_respondedAt := t\<rparr>)) = arow_id r"
    and "arow_orderId (AssignmentRepository_toEntity (a\<lparr>assignment_status := s, assignment_respondedAt := t\<rparr>)) = arow_orderId r"
  using assms
  by (auto simp: AssignmentRepository_toDomain_eq_Inr AssignmentRepository_toEntity_def)

lemma OrderRepository_toDomain_eq_Inr:
  "OrderRepository_toDomain r = Inr ord \<longleftrightarrow>
     orow_id r \<noteq> [] \<and> orow_shipperId r \<noteq> [] \<and>
     trim (orow_pickupAddress r) \<noteq> [] \<and> trim (orow_dropoffAddress r) \<noteq> [] \<and>
     \<not> number_lt0 (orow_totalWeightKg r) \<and>
     (\<exists>s pw dw. new_OrderStatus (orow_status r) = Inr s \<and>
        new_TimeWindow (orow_pickupStartAt r) (orow_pickupEndAt r) = Inr pw \<and>
        new_TimeWindow (orow_dropStartAt r) (orow_dropEndAt r) = Inr dw \<and>
        ord = \<lparr>order_id = OrderId (orow_id r), order_shipperId = AccountId (orow_shipperId r),
          order_status = s,
          order_pickupAddress = Address (trim (orow_pickupAddress r)),
          order_dropoffAddress = Address (trim (orow_dropoffAddress r)),
          order_pickupTimeWindow = pw, order_dropoffTimeWindow = dw,
          order_totalWeight = Weight (orow_totalWeightKg r), order_notes = orow_notes r,
          order_createdAt = orow_createdAt r\<rparr>)"
  by (auto simp: OrderRepository_toDomain_def andThen_eq_Inr new_OrderId_eq_Inr
      new_AccountId_eq_Inr new_Address_eq_Inr new_Weight_eq_Inr)

lemma OrderRepository_roundtrip:
  assumes "OrderRepository_toDomain r = Inr ord"
  shows "OrderRepository_toDomain (OrderRepository_toEntity (ord\<lparr>order_status := s\<rparr>))
    = Inr (ord\<lparr>order_status := s\<rparr>)"
proof -
  from assms obtain s0 pw dw where
    r: "orow_id r \<noteq> []" "orow_shipperId r \<noteq> []"
       "trim (orow_pickupAddress r) \<noteq> []" "trim (orow_dropoffAddress r) \<noteq> []"
       "\<not> number_lt0 (orow_totalWeightKg r)"
    and pw: "new_TimeWindow (orow_pickupStartAt r) (orow_pickupEndAt r) = Inr pw"
    and dw: "new_TimeWindow (orow_dropStartAt r) (orow_dropEndAt r) = Inr dw"
    and ord: "ord = \<lparr>order_id = OrderId (orow_id r), order_shipperId = AccountId (orow_shipperId r),
          order_status = s0,
          order_pickupAddress = Address (trim (orow_pickupAddress r)),
          order_dropoffAddress = Address (trim (orow_dropoffAddress r)),
          order_pickupTimeWindow = pw, order_dropoffTimeWindow = dw,
          order_totalWeight = Weight (orow_totalWeightKg r), order_notes = orow_notes r,
          order_createdAt = orow_createdAt r\<rparr>"
    unfolding OrderRepository_toDomain_eq_Inr by blast
  show ?thesis
    unfolding OrderRepository_toDomain_eq_Inr
    using r new_TimeWindow_again [OF pw] new_TimeWindow_again [OF dw]
    by (simp add: ord OrderRepository_toEntity_def trim_idem new_OrderStatus_value)
qed

lemma OrderRepository_toEntity_key:
  assumes "OrderRepository_toDomain r = Inr ord"
  shows "orow_id (OrderRepository_toEntity (ord\<lparr>order_status := s\<rparr>)) = orow_id r"
  using assms by (auto simp: OrderRepository_toDomain_eq_Inr OrderRepository_toEntity_def)


subsection \<open>Tables\<close>

lemma find_saveByKey:
  "find (\<lambda>x. key x = k) (saveByKey key r rows) =
     (if key r = k then Some r else find (\<lambda>x. key x = k) rows)"
  by (induction rows) auto

lemma saveByKey_fresh: "key r \<notin> set (map key rows) \<Longrightarrow> saveByKey key r rows = rows @ [r]"
  by (induction rows) auto

lemma set_map_saveByKey:
  "set (map key (saveByKey key r rows)) = insert (key r) (set (map key rows))"
  by (induction rows) auto

lemma distinct_map_saveByKey:
  "distinct (map key rows) \<Longrightarrow> distinct (map key (saveByKey key r rows))"
  by (induction rows) (auto simp: set_map_saveByKey [simplified])

lemma map_saveByKey_same:
  "find (\<lambda>x. key x = key r) rows = Some r0 \<Longrightarrow> f r = f r0 \<Longrightarrow>
   map f (saveByKey key r rows) = map f rows"
  by (induction rows) (auto split: if_splits)

lemma length_saveByKey_existing:
  "find (\<lambda>x. key x = key r) rows = Some r0 \<Longrightarrow> length (saveByKey key r rows) = length rows"
  by (induction rows) (auto split: if_splits)

lemma find_Some_set: "find P rows = Some r \<Longrightarrow> r \<in> set rows \<and> P r"
  by (induction rows) (auto split: if_splits)

lemma no_violation_on_update:
  assumes d: "distinct (map arow_orderId rows)"
    and f: "find (\<lambda>x. arow_id x = arow_id r) rows = Some r0"
    and o: "arow_orderId r = arow_orderId r0"
  shows "\<not> violates_uq_assignment_order r rows"
proof
  assume "violates_uq_assignment_order r rows"
  then obtain x where x: "x \<in> set rows" "arow_id x \<noteq> arow_id r" "arow_orderId x = arow_orderId r"
    by (auto simp: violates_uq_assignment_order_def list_ex_iff)
  from f have r0: "r0 \<in> set rows" "arow_id r0 = arow_id r"
    by (auto dest: find_Some_set)
  from d have "inj_on arow_orderId (set rows)"
    by (simp add: distinct_map)
  with x r0 o have "x = r0" by (auto dest: inj_onD)
  with x r0 show False by simp
qed


subsection \<open>Repository operations\<close>

lemma AssignmentRepository_findById_eq_Some:
  "AssignmentRepository_findById db aid = Inr (Some a) \<longleftrightarrow>
     (\<exists>r. find (\<lambda>r. arow_id r = AssignmentId_value aid) (assignment_table db) = Some r \<and>
          AssignmentRepository_toDomain r = Inr a)"
  by (auto simp: AssignmentRepository_findById_def findOne_def andThen_eq_Inr
      split: option.splits)

lemma OrderRepository_findById_eq_Some:
  "OrderRepository_findById db oid = Inr (Some ord) \<longleftrightarrow>
     (\<exists>r. find (\<lambda>r. orow_id r = OrderId_value oid) (order_table db) = Some r \<and>
          OrderRepository_toDomain r = Inr ord)"
  by (auto simp: OrderRepository_findById_def findOne_def andThen_eq_Inr
      split: option.splits)


lemma accept_PENDING:
  "assignment_status a = AssignmentStatusType.PENDING \<Longrightarrow>
   accept t a = Inr (a\<lparr>assignment_status := AssignmentStatusType.ACCEPTED,
                       assignment_respondedAt := Some t\<rparr>)"
  by (simp add: accept_def AssignmentStatus_isPending_def)

lemma assign_READY_TO_SHIP:
  "order_status ord = OrderStatusType.READY_TO_SHIP \<Longrightarrow>
   assign ord = Inr (ord\<lparr>order_status := OrderStatusType.ASSIGNED\<rparr>)"
  by (simp add: assign_def OrderStatus_canBeAssigned_def)

lemma AssignmentRepository_update_existing:
  assumes d: "distinct (map arow_orderId (assignment_table db))"
    and f: "find (\<lambda>r. arow_id r = AssignmentId_value (assignment_id a)) (assignment_table db) = Some r"
    and r: "AssignmentRepository_toDomain r = Inr a"
  shows "AssignmentRepository_update db (a\<lparr>assignment_status := s, assignment_respondedAt := t\<rparr>) =
     (Inr (a\<lparr>assignment_status := s, assignment_respondedAt := t\<rparr>),
      db\<lparr>assignment_table :=
           saveByKey arow_id
             (AssignmentRepository_toEntity (a\<lparr>assignment_status := s, assignment_respondedAt := t\<rparr>))
             (assignment_table db)\<rparr>)"
proof -
  let ?a = "a\<lparr>assignment_status := s, assignment_respondedAt := t\<rparr>"
  let ?e = "AssignmentRepository_toEntity ?a"
  from r have id: "AssignmentId_value (assignment_id a) = arow_id r"
    by (auto simp: AssignmentRepository_toDomain_eq_Inr)
  have k: "arow_id ?e = arow_id r" "arow_orderId ?e = arow_orderId r"
    using AssignmentRepository_toEntity_keys [OF r] by simp_all
  from f id k have "find (\<lambda>x. arow_id x = arow_id ?e) (assignment_table db) = Some r"
    by simp
  with d k have "\<not> violates_uq_assignment_order ?e (assignment_table db)"
    by (intro no_violation_on_update) simp_all
  then show ?thesis
    by (simp add: AssignmentRepository_update_def Let_def AssignmentRepository_roundtrip [OF r])
qed

lemma OrderRepository_update_existing:
  assumes r: "OrderRepository_toDomain r = Inr ord"
  shows "OrderRepository_update db (ord\<lparr>order_status := s\<rparr>) =
     (Inr (ord\<lparr>order_status := s\<rparr>),
      db\<lparr>order_table := saveByKey orow_id (OrderRepository_toEntity (ord\<lparr>order_status := s\<rparr>))
             (order_table db)\<rparr>)"
  by (simp add: OrderRepository_update_def Let_def OrderRepository_roundtrip [OF r])



lemma DeliveryEventRepository_save_ok:
  assumes "DeliveryEventId_value (event_id ev) \<noteq> []"
    and "OrderId_value (event_orderId ev) \<noteq> []"
    and "\<forall>c. event_courierId ev = Some c \<longrightarrow> AccountId_value c \<noteq> []"
  shows "DeliveryEventRepository_save db ev =
     (Inr ev, db\<lparr>delivery_event_table :=
        saveByKey erow_id (DeliveryEventRepository_toEntity ev) (delivery_event_table db)\<rparr>)"
proof -
  have "DeliveryEventRepository_toDomain (DeliveryEventRepository_toEntity ev) = Inr ev"
    using assms
    by (cases "event_courierId ev")
      (simp_all add: DeliveryEventRepository_toDomain_def DeliveryEventRepository_toEntity_def
        new_DeliveryEventId_def new_OrderId_def new_AccountId_def new_EventType_value)

  then show ?thesis
    by (simp add: DeliveryEventRepository_save_def Let_def)
qed

lemma logicalOr_PENDING_ACCEPTED: "logicalOr (js ''PENDING'') (js ''ACCEPTED'') = js ''PENDING''"
  by (simp add: logicalOr_def js_def)

lemma AssignmentRepository_findActiveByOrderId_eq_Some:
  "AssignmentRepository_findActiveByOrderId db oid = Inr (Some a) \<longleftrightarrow>
     (\<exists>r. find (\<lambda>r. arow_orderId r = OrderId_value oid \<and> arow_status r = js ''PENDING'')
            (assignment_table db) = Some r \<and>
          AssignmentRepository_toDomain r = Inr a)"
  by (auto simp: AssignmentRepository_findActiveByOrderId_def findOne_def andThen_eq_Inr
      logicalOr_PENDING_ACCEPTED split: option.splits)

lemma AssignmentRepository_findActiveByOrderId_none:
  assumes "\<forall>r\<in>set (assignment_table db).
      arow_orderId r = OrderId_value oid \<longrightarrow> arow_status r \<noteq> js ''PENDING''"
  shows "AssignmentRepository_findActiveByOrderId db oid = Inr None"
proof -
  have "find (\<lambda>r. arow_orderId r = OrderId_value oid \<and> arow_status r = js ''PENDING'')
      (assignment_table db) = None"
    using assms by (auto simp: find_None_iff)
  then show ?thesis
    by (simp add: AssignmentRepository_findActiveByOrderId_def findOne_def
        logicalOr_PENDING_ACCEPTED)
qed


subsection \<open>The example database\<close>

lemma example_assignment_roundtrip:
  "AssignmentRepository_toDomain (AssignmentRepository_toEntity (example_assignment s r)) =
     Inr (example_assignment s r)"
  by (simp add: AssignmentRepository_toDomain_eq_Inr AssignmentRepository_toEntity_def
      example_assignment_def new_AssignmentStatus_value)

lemma example_order_roundtrip:
  "OrderRepository_toDomain (OrderRepository_toEntity (example_order s)) = Inr (example_order s)"
proof -
  have "trim (js ''Shibuya 1-1-1'') = js ''Shibuya 1-1-1''"
    "trim (js ''Shinjuku 2-2-2'') = js ''Shinjuku 2-2-2''"
    by (simp_all add: js_def trim_def isWhiteSpace_def)
  then show ?thesis
    by (simp add: OrderRepository_toDomain_eq_Inr OrderRepository_toEntity_def
        example_order_def new_OrderStatus_value)
qed

lemma example_db_findById_assignment:
  "AssignmentRepository_findById (example_db os [example_assignment s r])
     (AssignmentId (js ''assignment-1'')) = Inr (Some (example_assignment s r))"
  unfolding AssignmentRepository_findById_eq_Some
  using example_assignment_roundtrip [of s r]
  by (simp add: example_db_def)
    (simp add: AssignmentRepository_toEntity_def example_assignment_def)

lemma example_db_findById_order:
  "OrderRepository_findById (example_db os as) (OrderId (js ''order-123'')) =
     Inr (Some (example_order os))"
  unfolding OrderRepository_findById_eq_Some
  using example_order_roundtrip [of os]
  by (simp add: example_db_def)
    (simp add: OrderRepository_toEntity_def example_order_def)


lemma example_db_integrity: "Database_integrity (example_db os [a])" "Database_integrity (example_db os [])"
  by (simp_all add: Database_integrity_def example_db_def)

lemma example_assignment_orderId [simp]:
  "assignment_orderId (example_assignment s r) = OrderId (js ''order-123'')"
  by (simp add: example_assignment_def)

lemma example_order_id [simp]: "order_id (example_order s) = OrderId (js ''order-123'')"
  by (simp add: example_order_def)

lemma example_db_tables [simp]:
  "assignment_table (example_db os as) = map AssignmentRepository_toEntity as"
  "delivery_event_table (example_db os as) = []"
  by (simp_all add: example_db_def)

lemma example_assignment_row [simp]:
  "arow_orderId (AssignmentRepository_toEntity (example_assignment s r)) = js ''order-123''"
  "arow_status (AssignmentRepository_toEntity (example_assignment s r)) =
     AssignmentStatusType_value s"
  "arow_id (AssignmentRepository_toEntity (example_assignment s r)) = js ''assignment-1''"
  by (simp_all add: AssignmentRepository_toEntity_def example_assignment_def)

lemma status_codes_distinct:
  "js ''ACCEPTED'' \<noteq> js ''PENDING''" "js ''REJECTED'' \<noteq> js ''PENDING''"
  "js ''COMPLETED'' \<noteq> js ''PENDING''" "js ''CANCELLED'' \<noteq> js ''PENDING''"
  by (simp_all add: js_def)

lemma offer_params_simps [simp]:
  "orderId (offer_params oid cid) = oid" "courierId (offer_params oid cid) = cid"
  by (simp_all add: offer_params_def)



section \<open>AcceptAssignment\<close>

text \<open>
  The run of the use case on a PENDING assignment whose order is READY_TO_SHIP, with the
  database it leaves.
\<close>

lemma AcceptAssignment_run:
  assumes integrity: "Database_integrity db"
    and aid: "new_AssignmentId assignmentId = Inr aid"
    and r: "find (\<lambda>r. arow_id r = AssignmentId_value aid) (assignment_table db) = Some r"
           "AssignmentRepository_toDomain r = Inr a"
    and pending: "assignment_status a = AssignmentStatusType.PENDING"
    and q: "find (\<lambda>r. orow_id r = OrderId_value (assignment_orderId a)) (order_table db) = Some q"
           "OrderRepository_toDomain q = Inr ord"
    and ready: "order_status ord = OrderStatusType.READY_TO_SHIP"
    and uuid: "eventUuid \<noteq> []" "eventUuid \<notin> set (map erow_id (delivery_event_table db))"
  shows "AcceptAssignmentUseCase_execute db respondedAt eventUuid occurredAt assignmentId =
     (Inr (a\<lparr>assignment_status := AssignmentStatusType.ACCEPTED,
             assignment_respondedAt := Some respondedAt\<rparr>),
      db\<lparr>assignment_table :=
           saveByKey arow_id
             (AssignmentRepository_toEntity
                (a\<lparr>assignment_status := AssignmentStatusType.ACCEPTED,
                   assignment_respondedAt := Some respondedAt\<rparr>))
             (assignment_table db),
         order_table :=
           saveByKey orow_id
             (OrderRepository_toEntity (ord\<lparr>order_status := OrderStatusType.ASSIGNED\<rparr>))
             (order_table db),
         delivery_event_table :=
           delivery_event_table db @
             [\<lparr>erow_id = eventUuid,
               erow_orderId = OrderId_value (assignment_orderId a),
               erow_courierId = Some (AccountId_value (assignment_courierId a)),
               erow_type = js ''ASSIGNED'',
               erow_payloadJson = Some (JSON_stringify
                 [(js ''assignmentId'', assignmentId),
                  (js ''courierId'', AccountId_value (assignment_courierId a))]),
               erow_occurredAt = occurredAt\<rparr>]\<rparr>)"
proof -
  let ?a = "a\<lparr>assignment_status := AssignmentStatusType.ACCEPTED,
             assignment_respondedAt := Some respondedAt\<rparr>"
  let ?ord = "ord\<lparr>order_status := OrderStatusType.ASSIGNED\<rparr>"
  let ?row = "\<lparr>erow_id = eventUuid,
               erow_orderId = OrderId_value (assignment_orderId a),
               erow_courierId = Some (AccountId_value (assignment_courierId a)),
               erow_type = js ''ASSIGNED'',
               erow_payloadJson = Some (JSON_stringify
                 [(js ''assignmentId'', assignmentId),
                  (js ''courierId'', AccountId_value (assignment_courierId a))]),
               erow_occurredAt = occurredAt\<rparr>"
  have found: "AssignmentRepository_findById db aid = Inr (Some a)"
    unfolding AssignmentRepository_findById_eq_Some using r by blast
  have order: "OrderRepository_findById db (assignment_orderId a) = Inr (Some ord)"
    unfolding OrderRepository_findById_eq_Some using q by blast
  from r have a_id: "AssignmentId_value (assignment_id a) = AssignmentId_value aid"
    by (auto simp: AssignmentRepository_toDomain_eq_Inr dest: find_Some_set)
  from r have a_wf: "OrderId_value (assignment_orderId a) \<noteq> []"
      "AccountId_value (assignment_courierId a) \<noteq> []"
    by (auto simp: AssignmentRepository_toDomain_eq_Inr)
  let ?db1 = "db\<lparr>assignment_table :=
      saveByKey arow_id (AssignmentRepository_toEntity ?a) (assignment_table db)\<rparr>"
  let ?db2 = "?db1\<lparr>order_table :=
      saveByKey orow_id (OrderRepository_toEntity ?ord) (order_table db)\<rparr>"
  let ?db3 = "?db2\<lparr>delivery_event_table := delivery_event_table db @ [?row]\<rparr>"
  have s1: "accept respondedAt a = Inr ?a"
    using pending by (rule accept_PENDING)
  have s2: "AssignmentRepository_update db ?a = (Inr ?a, ?db1)"
    using integrity r a_id
    by (intro AssignmentRepository_update_existing) (simp_all add: Database_integrity_def)
  have s3: "OrderRepository_findById ?db1 (assignment_orderId a) = Inr (Some ord)"
    using order by (simp add: OrderRepository_findById_def)
  have s4: "assign ord = Inr ?ord"
    using ready by (rule assign_READY_TO_SHIP)
  have s5: "OrderRepository_update ?db1 ?ord = (Inr ?ord, ?db2)"
    using OrderRepository_update_existing [OF q(2), of ?db1 OrderStatusType.ASSIGNED]
    by simp
  let ?ev = "\<lparr>event_id = DeliveryEventId eventUuid, event_orderId = assignment_orderId a,
      event_courierId = Some (assignment_courierId a),
      event_type = EventTypeValue.ASSIGNED,
      event_payloadJson = Some (JSON_stringify
        [(js ''assignmentId'', assignmentId),
         (js ''courierId'', AccountId_value (assignment_courierId a))]),
      event_occurredAt = occurredAt\<rparr>"
  have s6: "new_DeliveryEventId eventUuid = Inr (DeliveryEventId eventUuid)"
    using uuid(1) by (simp add: new_DeliveryEventId_def)
  have row: "DeliveryEventRepository_toEntity ?ev = ?row"
    by (simp add: DeliveryEventRepository_toEntity_def)
  have fresh: "saveByKey erow_id ?row (delivery_event_table db) = delivery_event_table db @ [?row]"
    using uuid(2) by (intro saveByKey_fresh) simp
  have s7: "DeliveryEventRepository_save ?db2 ?ev = (Inr ?ev, ?db3)"
    using DeliveryEventRepository_save_ok [of ?ev ?db2] uuid(1) a_wf
    by (simp add: row fresh)
  show ?thesis
    unfolding AcceptAssignmentUseCase_execute_def
    by (simp add: aid found s1 s2 s3 s4 s5 s6 s7)
qed

text \<open>
  Claim C3. Let the assignment with the given id exist with status PENDING and its order
  exist with status READY_TO_SHIP, in a database that satisfies its key constraints, and
  let the identifier drawn for the event be fresh. Then AcceptAssignment returns the
  assignment with status ACCEPTED and \<open>respondedAt\<close> set to the time of the call. In the
  database it leaves, the assignment reads back so, the order reads back with status
  ASSIGNED, and the event table has exactly one row more: an event of type ASSIGNED for
  the order and the courier, whose payload is the JSON text of the assignment id and the
  courier id. No assignment or order row is added, and the key constraints still hold.
\<close>

theorem AcceptAssignment_accepts:
  assumes integrity: "Database_integrity db"
    and aid: "new_AssignmentId assignmentId = Inr aid"
    and found: "AssignmentRepository_findById db aid = Inr (Some a)"
    and pending: "assignment_status a = AssignmentStatusType.PENDING"
    and order: "OrderRepository_findById db (assignment_orderId a) = Inr (Some ord)"
    and ready: "order_status ord = OrderStatusType.READY_TO_SHIP"
    and uuid: "eventUuid \<noteq> []" "eventUuid \<notin> set (map erow_id (delivery_event_table db))"
  shows "\<exists>db'.
     AcceptAssignmentUseCase_execute db respondedAt eventUuid occurredAt assignmentId =
       (Inr (a\<lparr>assignment_status := AssignmentStatusType.ACCEPTED,
               assignment_respondedAt := Some respondedAt\<rparr>), db') \<and>
     AssignmentRepository_findById db' aid =
       Inr (Some (a\<lparr>assignment_status := AssignmentStatusType.ACCEPTED,
                     assignment_respondedAt := Some respondedAt\<rparr>)) \<and>
     OrderRepository_findById db' (assignment_orderId a) =
       Inr (Some (ord\<lparr>order_status := OrderStatusType.ASSIGNED\<rparr>)) \<and>
     delivery_event_table db' =
       delivery_event_table db @
         [\<lparr>erow_id = eventUuid,
           erow_orderId = OrderId_value (assignment_orderId a),
           erow_courierId = Some (AccountId_value (assignment_courierId a)),
           erow_type = EventTypeValue_value EventTypeValue.ASSIGNED,
           erow_payloadJson = Some (JSON_stringify
             [(js ''assignmentId'', assignmentId),
              (js ''courierId'', AccountId_value (assignment_courierId a))]),
           erow_occurredAt = occurredAt\<rparr>] \<and>
     length (assignment_table db') = length (assignment_table db) \<and>
     length (order_table db') = length (order_table db) \<and>
     Database_integrity db'"
proof -
  let ?a = "a\<lparr>assignment_status := AssignmentStatusType.ACCEPTED,
             assignment_respondedAt := Some respondedAt\<rparr>"
  let ?ord = "ord\<lparr>order_status := OrderStatusType.ASSIGNED\<rparr>"
  from found obtain r where
    r: "find (\<lambda>r. arow_id r = AssignmentId_value aid) (assignment_table db) = Some r"
       "AssignmentRepository_toDomain r = Inr a"
    unfolding AssignmentRepository_findById_eq_Some by blast
  from order obtain q where
    q: "find (\<lambda>r. orow_id r = OrderId_value (assignment_orderId a)) (order_table db) = Some q"
       "OrderRepository_toDomain q = Inr ord"
    unfolding OrderRepository_findById_eq_Some by blast
  note run = AcceptAssignment_run [OF integrity aid r pending q ready uuid,
      of respondedAt occurredAt]
  have ka: "arow_id (AssignmentRepository_toEntity ?a) = AssignmentId_value aid"
    using AssignmentRepository_toEntity_keys(1) [OF r(2)] r(1) by (auto dest: find_Some_set)
  have ko: "orow_id (OrderRepository_toEntity ?ord) = OrderId_value (assignment_orderId a)"
    using OrderRepository_toEntity_key [OF q(2)] q(1) by (auto dest: find_Some_set)
  have ra: "AssignmentRepository_findById
      (db\<lparr>assignment_table :=
           saveByKey arow_id (AssignmentRepository_toEntity ?a) (assignment_table db)\<rparr>) aid
      = Inr (Some ?a)"
    unfolding AssignmentRepository_findById_eq_Some
    using AssignmentRepository_roundtrip [OF r(2)] ka by (simp add: find_saveByKey)
  have ro: "OrderRepository_findById
      (db\<lparr>order_table :=
           saveByKey orow_id (OrderRepository_toEntity ?ord) (order_table db)\<rparr>)
      (assignment_orderId a) = Inr (Some ?ord)"
    unfolding OrderRepository_findById_eq_Some
    using OrderRepository_roundtrip [OF q(2)] ko by (simp add: find_saveByKey)
  have la: "length (saveByKey arow_id (AssignmentRepository_toEntity ?a) (assignment_table db))
      = length (assignment_table db)"
    using r(1) ka by (simp add: length_saveByKey_existing)
  have lo: "length (saveByKey orow_id (OrderRepository_toEntity ?ord) (order_table db))
      = length (order_table db)"
    using q(1) ko by (simp add: length_saveByKey_existing)
  have integ: "Database_integrity
      (db\<lparr>assignment_table :=
           saveByKey arow_id (AssignmentRepository_toEntity ?a) (assignment_table db),
         order_table :=
           saveByKey orow_id (OrderRepository_toEntity ?ord) (order_table db),
         delivery_event_table :=
           delivery_event_table db @
             [\<lparr>erow_id = eventUuid,
               erow_orderId = OrderId_value (assignment_orderId a),
               erow_courierId = Some (AccountId_value (assignment_courierId a)),
               erow_type = js ''ASSIGNED'',
               erow_payloadJson = Some (JSON_stringify
                 [(js ''assignmentId'', assignmentId),
                  (js ''courierId'', AccountId_value (assignment_courierId a))]),
               erow_occurredAt = occurredAt\<rparr>]\<rparr>)"
  proof -
    have "map arow_orderId
        (saveByKey arow_id (AssignmentRepository_toEntity ?a) (assignment_table db)) =
        map arow_orderId (assignment_table db)"
      using r(1) ka AssignmentRepository_toEntity_keys(2) [OF r(2)]
      by (intro map_saveByKey_same [where ?r0.0 = r]) simp_all
    then show ?thesis
      using integrity uuid(2)
      by (simp add: Database_integrity_def distinct_map_saveByKey)
  qed
  show ?thesis
    using ra ro la lo integ
    by (simp add: run AssignmentRepository_findById_def OrderRepository_findById_def)
qed

theorem AcceptAssignment_accepts_witness:
  "\<exists>db'. AcceptAssignmentUseCase_execute
       (example_db OrderStatusType.READY_TO_SHIP
          [example_assignment AssignmentStatusType.PENDING None])
       (TimeValue 2000) (js ''event-1'') (TimeValue 2001) (js ''assignment-1'') =
       (Inr (example_assignment AssignmentStatusType.ACCEPTED (Some (TimeValue 2000))), db') \<and>
     OrderRepository_findById db' (OrderId (js ''order-123'')) =
       Inr (Some (example_order OrderStatusType.ASSIGNED)) \<and>
     length (delivery_event_table db') = 1"
proof -
  let ?db = "example_db OrderStatusType.READY_TO_SHIP
      [example_assignment AssignmentStatusType.PENDING None]"
  let ?a = "example_assignment AssignmentStatusType.PENDING None"
  have aid: "new_AssignmentId (js ''assignment-1'') = Inr (AssignmentId (js ''assignment-1''))"
    by (simp add: new_AssignmentId_def)
  have ord: "OrderRepository_findById ?db (assignment_orderId ?a) =
      Inr (Some (example_order OrderStatusType.READY_TO_SHIP))"
    by (simp add: example_db_findById_order)
  have fresh: "js ''event-1'' \<noteq> []" "js ''event-1'' \<notin> set (map erow_id (delivery_event_table ?db))"
    by (simp_all add: example_db_def)
  have upd: "?a\<lparr>assignment_status := AssignmentStatusType.ACCEPTED,
       assignment_respondedAt := Some (TimeValue 2000)\<rparr> =
      example_assignment AssignmentStatusType.ACCEPTED (Some (TimeValue 2000))"
    by (simp add: example_assignment_def)
  from AcceptAssignment_accepts [OF example_db_integrity(1) aid example_db_findById_assignment _ ord _ fresh,
      of "TimeValue 2000" "TimeValue 2001"]
  obtain db' where
    "AcceptAssignmentUseCase_execute ?db (TimeValue 2000) (js ''event-1'') (TimeValue 2001)
       (js ''assignment-1'') =
       (Inr (example_assignment AssignmentStatusType.ACCEPTED (Some (TimeValue 2000))), db')"
    "OrderRepository_findById db' (OrderId (js ''order-123'')) =
       Inr (Some (example_order OrderStatusType.ASSIGNED))"
    "length (delivery_event_table db') = length (delivery_event_table ?db) + 1"
    unfolding upd by auto
  then show ?thesis
    by (intro exI [of _ db']) (simp add: example_db_def)
qed

text \<open>
  Claim C6. Let the assignment with the given id exist with a status other than PENDING,
  as ACCEPTED is. Then AcceptAssignment fails with the invalid-state error of \<open>accept\<close>,
  and the database is as it was: no assignment, order or event was written.
\<close>

theorem AcceptAssignment_not_pending:
  assumes aid: "new_AssignmentId assignmentId = Inr aid"
    and found: "AssignmentRepository_findById db aid = Inr (Some a)"
    and status: "assignment_status a \<noteq> AssignmentStatusType.PENDING"
  shows "AcceptAssignmentUseCase_execute db respondedAt eventUuid occurredAt assignmentId =
     (Inl OnlyPendingCanBeAccepted, db)"
proof -
  have "accept respondedAt a = Inl OnlyPendingCanBeAccepted"
    using status by (simp add: accept_def AssignmentStatus_isPending_def)
  then show ?thesis
    unfolding AcceptAssignmentUseCase_execute_def by (simp add: aid found)
qed

theorem AcceptAssignment_not_pending_witness:
  "AcceptAssignmentUseCase_execute
     (example_db OrderStatusType.ASSIGNED
        [example_assignment AssignmentStatusType.ACCEPTED (Some (TimeValue 1500))])
     (TimeValue 2000) (js ''event-1'') (TimeValue 2001) (js ''assignment-1'') =
     (Inl OnlyPendingCanBeAccepted,
      example_db OrderStatusType.ASSIGNED
        [example_assignment AssignmentStatusType.ACCEPTED (Some (TimeValue 1500))])"
proof -
  have aid: "new_AssignmentId (js ''assignment-1'') = Inr (AssignmentId (js ''assignment-1''))"
    by (simp add: new_AssignmentId_def)
  show ?thesis
    by (rule AcceptAssignment_not_pending [OF aid example_db_findById_assignment]) simp
qed

section \<open>The query for the active assignment of an order\<close>

text \<open>
  Claim C4, as stated, fails: the status equality of the query is not always true. On a
  database whose only assignment for the order is ACCEPTED, the query returns null, and
  not the first stored assignment of the order, which \<open>findByOrderId\<close> returns and
  which is active.
\<close>

theorem findActiveByOrderId_ignores_accepted_counterexample:
  "AssignmentRepository_findActiveByOrderId
     (example_db OrderStatusType.ASSIGNED
        [example_assignment AssignmentStatusType.ACCEPTED (Some (TimeValue 1500))])
     (OrderId (js ''order-123'')) = Inr None \<and>
   AssignmentRepository_findByOrderId
     (example_db OrderStatusType.ASSIGNED
        [example_assignment AssignmentStatusType.ACCEPTED (Some (TimeValue 1500))])
     (OrderId (js ''order-123'')) =
     Inr (Some (example_assignment AssignmentStatusType.ACCEPTED (Some (TimeValue 1500)))) \<and>
   Assignment_isActive (example_assignment AssignmentStatusType.ACCEPTED (Some (TimeValue 1500)))"
proof -
  let ?a = "example_assignment AssignmentStatusType.ACCEPTED (Some (TimeValue 1500))"
  let ?db = "example_db OrderStatusType.ASSIGNED [?a]"
  have 1: "AssignmentRepository_findActiveByOrderId ?db (OrderId (js ''order-123'')) = Inr None"
    by (simp add: AssignmentRepository_findActiveByOrderId_def findOne_def
        logicalOr_PENDING_ACCEPTED status_codes_distinct)
  have 2: "AssignmentRepository_findByOrderId ?db (OrderId (js ''order-123'')) = Inr (Some ?a)"
    by (simp add: AssignmentRepository_findByOrderId_def findOne_def
        example_assignment_roundtrip)
  have 3: "Assignment_isActive ?a"
    by (simp add: Assignment_isActive_def AssignmentStatus_isActive_def)
  from 1 2 3 show ?thesis by blast
qed

text \<open>
  Claim C4, amended. The query filters by the order id and by the single status value
  PENDING, the value of \<open>'PENDING' || 'ACCEPTED'\<close>: an assignment it returns is of the
  order and is PENDING, and is the first stored row of the order with status PENDING; it
  returns null when the order has no stored row with status PENDING, whatever other rows
  the order has; and it returns the first such row when there is one. So it does not
  filter by the two statuses PENDING and ACCEPTED that make an assignment active.
\<close>

theorem findActiveByOrderId_finds_pending_only:
  "(\<forall>a. AssignmentRepository_findActiveByOrderId db oid = Inr (Some a) \<longrightarrow>
      assignment_orderId a = oid \<and> assignment_status a = AssignmentStatusType.PENDING \<and>
      (\<exists>r. find (\<lambda>r. arow_orderId r = OrderId_value oid \<and>
                     arow_status r = AssignmentStatusType_value AssignmentStatusType.PENDING)
              (assignment_table db) = Some r \<and>
           AssignmentRepository_toDomain r = Inr a)) \<and>
   ((\<forall>r\<in>set (assignment_table db).
       arow_orderId r = OrderId_value oid \<longrightarrow>
       arow_status r \<noteq> AssignmentStatusType_value AssignmentStatusType.PENDING) \<longrightarrow>
    AssignmentRepository_findActiveByOrderId db oid = Inr None) \<and>
   (\<forall>r a. find (\<lambda>r. arow_orderId r = OrderId_value oid \<and>
                   arow_status r = AssignmentStatusType_value AssignmentStatusType.PENDING)
            (assignment_table db) = Some r \<and>
          AssignmentRepository_toDomain r = Inr a \<longrightarrow>
      AssignmentRepository_findActiveByOrderId db oid = Inr (Some a))"
proof -
  have 1: "assignment_orderId a = oid \<and> assignment_status a = AssignmentStatusType.PENDING"
    if "find (\<lambda>r. arow_orderId r = OrderId_value oid \<and> arow_status r = js ''PENDING'')
            (assignment_table db) = Some r"
      and "AssignmentRepository_toDomain r = Inr a" for r a
  proof -
    from that(1) have r: "arow_orderId r = OrderId_value oid" "arow_status r = js ''PENDING''"
      by (auto dest: find_Some_set)
    from that(2) r show ?thesis
      by (cases oid) (auto simp: AssignmentRepository_toDomain_eq_Inr)
  qed
  show ?thesis
    using 1 AssignmentRepository_findActiveByOrderId_none [of db oid]
    by (auto simp: AssignmentRepository_findActiveByOrderId_eq_Some)
qed

theorem findActiveByOrderId_finds_pending_only_witness:
  "AssignmentRepository_findActiveByOrderId
     (example_db OrderStatusType.READY_TO_SHIP
        [example_assignment AssignmentStatusType.PENDING None])
     (OrderId (js ''order-123'')) =
     Inr (Some (example_assignment AssignmentStatusType.PENDING None)) \<and>
   AssignmentRepository_findActiveByOrderId
     (example_db OrderStatusType.READY_TO_SHIP
        [example_assignment AssignmentStatusType.REJECTED (Some (TimeValue 1500))])
     (OrderId (js ''order-123'')) = Inr None \<and>
   (\<exists>r. find (\<lambda>r. arow_orderId r = js ''order-123'' \<and> arow_status r = js ''PENDING'')
          (assignment_table (example_db OrderStatusType.READY_TO_SHIP
             [example_assignment AssignmentStatusType.PENDING None])) = Some r \<and>
        AssignmentRepository_toDomain r =
          Inr (example_assignment AssignmentStatusType.PENDING None))"
proof -
  let ?p = "example_assignment AssignmentStatusType.PENDING None"
  let ?r = "example_assignment AssignmentStatusType.REJECTED (Some (TimeValue 1500))"
  have "find (\<lambda>r. arow_orderId r = OrderId_value (OrderId (js ''order-123'')) \<and>
                   arow_status r = AssignmentStatusType_value AssignmentStatusType.PENDING)
            (assignment_table (example_db OrderStatusType.READY_TO_SHIP [?p])) =
          Some (AssignmentRepository_toEntity ?p) \<and>
        AssignmentRepository_toDomain (AssignmentRepository_toEntity ?p) = Inr ?p"
    by (simp add: example_assignment_roundtrip)
  then have 1: "AssignmentRepository_findActiveByOrderId
      (example_db OrderStatusType.READY_TO_SHIP [?p]) (OrderId (js ''order-123'')) = Inr (Some ?p)"
    using findActiveByOrderId_finds_pending_only
      [of "example_db OrderStatusType.READY_TO_SHIP [?p]" "OrderId (js ''order-123'')"]
    by blast
  have "\<forall>r\<in>set (assignment_table (example_db OrderStatusType.READY_TO_SHIP [?r])).
       arow_orderId r = OrderId_value (OrderId (js ''order-123'')) \<longrightarrow>
       arow_status r \<noteq> AssignmentStatusType_value AssignmentStatusType.PENDING"
    by (simp add: status_codes_distinct)
  then have 2: "AssignmentRepository_findActiveByOrderId
      (example_db OrderStatusType.READY_TO_SHIP [?r]) (OrderId (js ''order-123'')) = Inr None"
    using findActiveByOrderId_finds_pending_only
      [of "example_db OrderStatusType.READY_TO_SHIP [?r]" "OrderId (js ''order-123'')"]
    by blast
  have 3: "\<exists>r. find (\<lambda>r. arow_orderId r = js ''order-123'' \<and> arow_status r = js ''PENDING'')
          (assignment_table (example_db OrderStatusType.READY_TO_SHIP [?p])) = Some r \<and>
        AssignmentRepository_toDomain r = Inr ?p"
    using findActiveByOrderId_finds_pending_only
      [of "example_db OrderStatusType.READY_TO_SHIP [?p]" "OrderId (js ''order-123'')"] 1
    by simp
  from 1 2 3 show ?thesis by blast
qed

section \<open>OfferAssignment\<close>






section \<open>PlaceOrder\<close>

text \<open>The JSON text of some strings and of the payload of the first scenario.\<close>

lemma QuoteJSONString_examples:
  "QuoteJSONString (js ''s1'') = [0x22] @ js ''s1'' @ [0x22]"
  "QuoteJSONString [0x61, 0x22, 0x5C, 0x0A, 0x01] =
     [0x22, 0x61, 0x5C, 0x22, 0x5C, 0x5C, 0x5C, 0x6E, 0x5C, 0x75, 0x30, 0x30, 0x30, 0x31, 0x22]"
  "QuoteJSONString [0xD83D, 0xDE00, 0xD83D, 0x61] =
     [0x22, 0xD83D, 0xDE00, 0x5C, 0x75, 0x64, 0x38, 0x33, 0x64, 0x61, 0x22]"
  by (simp_all add: QuoteJSONString_def js_def UnicodeEscape_def hexDigit_def
      isLeadingSurrogate_def isTrailingSurrogate_def)






end
